theory Spec2Isabelle
  imports Complex_Main
begin

section \<open>gplot++: a shallow embedding of the \<open>Gnuplot\<close> class\<close>

text \<open>
  The class \<open>Gnuplot\<close> of \<open>gplot++.h\<close> drives a Gnuplot process through a pipe. The
  embedding below follows the header method by method.

  \<^item> The pipe \<open>FILE *connection\<close> is an optional string: \<open>None\<close> is the null pointer, and
    \<open>Some out\<close> is an open pipe to which the text \<open>out\<close> has been written so far.
  \<^item> A \<open>double\<close> is a real number; the value \<open>NAN\<close>, which the range setters use for
    "no bound", is \<open>None\<close> of \<open>real option\<close>. Rounding, overflow and infinities of the
    binary format are outside the model.
  \<^item> \<open>operator<<\<close> on a number is a parameter (\<open>shw\<close> for the element type of a vector,
    \<open>fmt\<close> for \<open>double\<close>): the header leaves the conversion to the stream. Integers of
    the types \<open>int\<close>, \<open>unsigned\<close> and \<open>size_t\<close> are printed in decimal.
  \<^item> \<open>assert\<close> is modelled as compiled in: a failed assertion, an exception of
    \<open>std::vector::at\<close> and undefined behaviour are values of the type \<open>failure\<close>.
  \<^item> Names are those of the header, except where the prover does not allow them:
    \<open>_plot\<close> is \<open>plot_impl\<close>, \<open>_print_ith_elements\<close> is \<open>print_ith_elements\<close>, the two
    overloads of \<open>plot\<close> are \<open>plot_y\<close> and \<open>plot_xy\<close>, \<open>show\<close> is \<open>show_plots\<close>, and the
    constructor and the destructor are \<open>Gnuplot_ctor\<close> and \<open>Gnuplot_dtor\<close>.
\<close>

subsection \<open>Characters and decimal output\<close>

abbreviation quote :: char where
  "quote \<equiv> CHR 0x27"

abbreviation newline :: char where
  "newline \<equiv> CHR 0x0A"

abbreviation space :: char where
  "space \<equiv> CHR 0x20"

abbreviation NUL :: char where
  "NUL \<equiv> CHR 0x00"

definition digit_char :: "nat \<Rightarrow> char" where
  "digit_char d = ''0123456789'' ! d"

text \<open>\<open>os << n\<close> for an unsigned integer.\<close>

fun show_nat :: "nat \<Rightarrow> string" where
  "show_nat n =
     (if n < 10 then [digit_char n] else show_nat (n div 10) @ [digit_char (n mod 10)])"

declare show_nat.simps [simp del]

text \<open>\<open>os << n\<close> for an \<open>int\<close>.\<close>

definition show_int :: "int \<Rightarrow> string" where
  "show_int i = (if i < 0 then CHR ''-'' # show_nat (nat (- i)) else show_nat (nat i))"

text \<open>
  \<open>std::string::c_str\<close> followed by \<open>fputs\<close>: the characters before the first NUL.
\<close>

definition c_str :: "string \<Rightarrow> string" where
  "c_str s = takeWhile (\<lambda>c. c \<noteq> NUL) s"

subsection \<open>Enumerations and the session record\<close>

datatype LineStyle =
  DOTS | LINES | POINTS | LINESPOINTS | STEPS | BOXES
  | X_ERROR_BARS | Y_ERROR_BARS | XY_ERROR_BARS | VECTORS

datatype AxisScale = LINEAR | LOGX | LOGY | LOGXY

datatype TerminalMode = MONO | ANSI | ANSI256 | ANSIRGB

record GnuplotSeries =
  data_string :: string
  line_style :: LineStyle
  title :: string
  column_range :: string

record Gnuplot =
  connection :: "string option"
  series :: "GnuplotSeries list"
  files_to_delete :: "string list"
  xrange :: string
  yrange :: string
  zrange :: string
  is_3dplot :: bool

datatype failure =
  Assert_nbins          \<comment> \<open>\<open>assert(nbins > 0)\<close> failed\<close>
  | Assert_dimension    \<comment> \<open>the 2D/3D assertion failed\<close>
  | Out_of_range        \<comment> \<open>\<open>std::vector::at\<close> threw \<open>std::out_of_range\<close>\<close>
  | Undefined_behaviour \<comment> \<open>a read past the end of a vector, or a conversion of a
                            \<open>double\<close> that no \<open>int\<close> represents\<close>

subsection \<open>Private helpers\<close>

definition escape_quotes :: "string \<Rightarrow> string" where
  "escape_quotes s =
     fold (\<lambda>c result. if c \<noteq> quote then result @ [c] else result @ [quote, quote]) s []"

fun style_to_str :: "LineStyle \<Rightarrow> string" where
  "style_to_str DOTS = ''dots''"
| "style_to_str POINTS = ''points''"
| "style_to_str LINESPOINTS = ''linespoints''"
| "style_to_str STEPS = ''steps''"
| "style_to_str BOXES = ''boxes''"
| "style_to_str X_ERROR_BARS = ''xerrorbars''"
| "style_to_str Y_ERROR_BARS = ''yerrorbars''"
| "style_to_str XY_ERROR_BARS = ''xyerrorbars''"
| "style_to_str VECTORS = ''vectors''"
| "style_to_str LINES = ''lines''"

definition format_range :: "(real \<Rightarrow> string) \<Rightarrow> real option \<Rightarrow> real option \<Rightarrow> string" where
  "format_range fmt mn mx =
     (if mn = None \<and> mx = None then ''[]''
      else ''['' @ (case mn of None \<Rightarrow> ''*'' | Some a \<Rightarrow> fmt a)
           @ '':'' @ (case mx of None \<Rightarrow> ''*'' | Some b \<Rightarrow> fmt b) @ '']'')"

subsection \<open>Sending commands\<close>

definition ok :: "Gnuplot \<Rightarrow> bool" where
  "ok g = (connection g \<noteq> None)"

definition sendcommand :: "string \<Rightarrow> Gnuplot \<Rightarrow> bool \<times> Gnuplot" where
  "sendcommand str g =
     (if \<not> ok g then (False, g)
      else (True, g\<lparr>connection :=
                      map_option (\<lambda>out. out @ c_str str @ [newline]) (connection g)\<rparr>))"

definition redirect_to_png :: "string \<Rightarrow> string \<Rightarrow> Gnuplot \<Rightarrow> bool \<times> Gnuplot" where
  "redirect_to_png filename sz g =
     sendcommand (''set terminal pngcairo color enhanced size '' @ sz @ [newline]
                  @ ''set output '' @ [quote] @ filename @ [quote, newline]) g"

definition redirect_to_pdf :: "string \<Rightarrow> string \<Rightarrow> Gnuplot \<Rightarrow> bool \<times> Gnuplot" where
  "redirect_to_pdf filename sz g =
     sendcommand (''set terminal pdfcairo color enhanced size '' @ sz @ [newline]
                  @ ''set output '' @ [quote] @ filename @ [quote, newline]) g"

definition redirect_to_svg :: "string \<Rightarrow> string \<Rightarrow> Gnuplot \<Rightarrow> bool \<times> Gnuplot" where
  "redirect_to_svg filename sz g =
     sendcommand (''set terminal svg enhanced mouse standalone size '' @ sz @ [newline]
                  @ ''set output '' @ [quote] @ filename @ [quote, newline]) g"

fun terminal_mode_str :: "TerminalMode \<Rightarrow> string" where
  "terminal_mode_str MONO = ''mono''"
| "terminal_mode_str ANSI = ''ansi''"
| "terminal_mode_str ANSI256 = ''ansi256''"
| "terminal_mode_str ANSIRGB = ''ansirgb''"

definition redirect_to_dumb ::
  "string \<Rightarrow> nat \<Rightarrow> nat \<Rightarrow> TerminalMode \<Rightarrow> Gnuplot \<Rightarrow> bool \<times> Gnuplot" where
  "redirect_to_dumb filename width height mode g =
     sendcommand (''set terminal dumb size '' @ show_nat width @ '' '' @ show_nat height
                  @ terminal_mode_str mode @ [newline]
                  @ (if filename \<noteq> [] then ''set output '' @ [quote] @ filename @ [quote, newline]
                     else [])) g"

definition set_xlabel :: "string \<Rightarrow> Gnuplot \<Rightarrow> bool \<times> Gnuplot" where
  "set_xlabel label g =
     sendcommand (''set xlabel '' @ [quote] @ escape_quotes label @ [quote]) g"

definition set_ylabel :: "string \<Rightarrow> Gnuplot \<Rightarrow> bool \<times> Gnuplot" where
  "set_ylabel label g =
     sendcommand (''set ylabel '' @ [quote] @ escape_quotes label @ [quote]) g"

definition set_xrange :: "(real \<Rightarrow> string) \<Rightarrow> real option \<Rightarrow> real option \<Rightarrow> Gnuplot \<Rightarrow> Gnuplot" where
  "set_xrange fmt mn mx g = g\<lparr>xrange := format_range fmt mn mx\<rparr>"

definition set_yrange :: "(real \<Rightarrow> string) \<Rightarrow> real option \<Rightarrow> real option \<Rightarrow> Gnuplot \<Rightarrow> Gnuplot" where
  "set_yrange fmt mn mx g = g\<lparr>yrange := format_range fmt mn mx\<rparr>"

definition set_zrange :: "(real \<Rightarrow> string) \<Rightarrow> real option \<Rightarrow> real option \<Rightarrow> Gnuplot \<Rightarrow> Gnuplot" where
  "set_zrange fmt mn mx g = g\<lparr>zrange := format_range fmt mn mx\<rparr>"

fun set_logscale :: "AxisScale \<Rightarrow> Gnuplot \<Rightarrow> bool \<times> Gnuplot" where
  "set_logscale LOGX g = sendcommand ''set logscale x'' g"
| "set_logscale LOGY g = sendcommand ''set logscale y'' g"
| "set_logscale LOGXY g = sendcommand ''set logscale xy'' g"
| "set_logscale LINEAR g = sendcommand ''unset logscale'' g"

definition multiplot :: "int \<Rightarrow> int \<Rightarrow> string \<Rightarrow> Gnuplot \<Rightarrow> bool \<times> Gnuplot" where
  "multiplot nrows ncols ttl g =
     sendcommand (''set multiplot layout '' @ show_int nrows @ '', '' @ show_int ncols
                  @ '' title '' @ [quote] @ escape_quotes ttl @ [quote, newline]) g"

subsection \<open>Construction and destruction\<close>

text \<open>
  \<open>popen\<close> is the environment: it tells whether the process named by the command line
  could be started. The destructor returns the files it passes to \<open>std::remove\<close>.
\<close>

definition Gnuplot_ctor ::
  "(string \<Rightarrow> bool) \<Rightarrow> (real \<Rightarrow> string) \<Rightarrow> string \<Rightarrow> bool \<Rightarrow> Gnuplot" where
  "Gnuplot_ctor popen fmt executable_name persist =
     (let os = executable_name @ (if persist then '' --persist'' else []);
          g0 = \<lparr>connection = (if popen (c_str os) then Some [] else None),
                series = [], files_to_delete = [],
                xrange = [], yrange = [], zrange = [], is_3dplot = False\<rparr>;
          g1 = set_zrange fmt None None (set_yrange fmt None None (set_xrange fmt None None g0));
          g2 = snd (sendcommand (''set encoding utf8'' @ [newline]) g1)
      in snd (sendcommand ''set minussign'' g2))"

definition Gnuplot_dtor :: "Gnuplot \<Rightarrow> Gnuplot \<times> string list" where
  "Gnuplot_dtor g = (g\<lparr>connection := None\<rparr>, files_to_delete g)"

subsection \<open>Adding series\<close>

text \<open>
  \<open>_print_ith_elements\<close> recurses over its parameter pack, here the list of the
  vectors still to be printed. It writes element \<open>i\<close> of each vector to the data stream
  \<open>os\<close> and, for the first row, the column number to \<open>fmts\<close>. The subscript \<open>v[i]\<close> is
  unchecked: past the end of \<open>v\<close> it is undefined behaviour.
\<close>

fun print_ith_elements ::
  "('a \<Rightarrow> string) \<Rightarrow> string \<times> string \<Rightarrow> int \<Rightarrow> nat \<Rightarrow> 'a list list
     \<Rightarrow> failure + string \<times> string" where
  "print_ith_elements shw (os, fmts) index i [] = Inr (os, fmts)"
| "print_ith_elements shw (os, fmts) index i (v # args) =
     (if \<not> i < length v then Inl Undefined_behaviour
      else print_ith_elements shw
             (os @ shw (v ! i) @ [space],
              if i = 0 then (if index > 1 then fmts @ '':'' else fmts) @ show_int index
              else fmts)
             (index + 1) i args)"

text \<open>The loop of \<open>_plot\<close> over the rows \<open>i = 0, ..., v.size() - 1\<close>.\<close>

fun plot_loop ::
  "('a \<Rightarrow> string) \<Rightarrow> 'a list list \<Rightarrow> nat list \<Rightarrow> string \<times> string
     \<Rightarrow> failure + string \<times> string" where
  "plot_loop shw vs [] (ofs, fmtstring) = Inr (ofs, fmtstring)"
| "plot_loop shw vs (i # rest) (ofs, fmtstring) =
     (case print_ith_elements shw (ofs, fmtstring) 1 i vs of
        Inl e \<Rightarrow> Inl e
      | Inr (ofs', fmtstring') \<Rightarrow> plot_loop shw vs rest (ofs' @ [newline], fmtstring'))"

text \<open>\<open>_plot(label, style, is_this_3dplot, v, args...)\<close>.\<close>

definition plot_impl ::
  "('a \<Rightarrow> string) \<Rightarrow> string \<Rightarrow> LineStyle \<Rightarrow> bool \<Rightarrow> 'a list \<Rightarrow> 'a list list
     \<Rightarrow> Gnuplot \<Rightarrow> failure + Gnuplot" where
  "plot_impl shw label style is_this_3dplot v args g =
     (if v = [] then Inr g
      else if series g \<noteq> [] \<and> is_3dplot g \<noteq> is_this_3dplot then Inl Assert_dimension
      else case plot_loop shw (v # args) [0..<length v] ([], []) of
             Inl e \<Rightarrow> Inl e
           | Inr (ofs, fmtstring) \<Rightarrow>
               Inr (g\<lparr>series := series g @
                        [\<lparr>data_string = ofs, line_style = style, title = label,
                          column_range = fmtstring\<rparr>],
                      is_3dplot := is_this_3dplot\<rparr>))"

definition plot_y ::
  "('a \<Rightarrow> string) \<Rightarrow> 'a list \<Rightarrow> string \<Rightarrow> LineStyle \<Rightarrow> Gnuplot \<Rightarrow> failure + Gnuplot" where
  "plot_y shw y label style g = plot_impl shw label style False y [] g"

definition plot_xy ::
  "('a \<Rightarrow> string) \<Rightarrow> 'a list \<Rightarrow> 'a list \<Rightarrow> string \<Rightarrow> LineStyle \<Rightarrow> Gnuplot
     \<Rightarrow> failure + Gnuplot" where
  "plot_xy shw x y label style g = plot_impl shw label style False x [y] g"

definition plot_xerr ::
  "('a \<Rightarrow> string) \<Rightarrow> 'a list \<Rightarrow> 'a list \<Rightarrow> 'a list \<Rightarrow> string \<Rightarrow> Gnuplot
     \<Rightarrow> failure + Gnuplot" where
  "plot_xerr shw x y err label g = plot_impl shw label X_ERROR_BARS False x [y, err] g"

definition plot_yerr ::
  "('a \<Rightarrow> string) \<Rightarrow> 'a list \<Rightarrow> 'a list \<Rightarrow> 'a list \<Rightarrow> string \<Rightarrow> Gnuplot
     \<Rightarrow> failure + Gnuplot" where
  "plot_yerr shw x y err label g = plot_impl shw label Y_ERROR_BARS False x [y, err] g"

definition plot_xyerr ::
  "('a \<Rightarrow> string) \<Rightarrow> 'a list \<Rightarrow> 'a list \<Rightarrow> 'a list \<Rightarrow> 'a list \<Rightarrow> string \<Rightarrow> Gnuplot
     \<Rightarrow> failure + Gnuplot" where
  "plot_xyerr shw x y xerr yerr label g =
     plot_impl shw label XY_ERROR_BARS False x [y, xerr, yerr] g"

definition plot_vectors ::
  "('a \<Rightarrow> string) \<Rightarrow> 'a list \<Rightarrow> 'a list \<Rightarrow> 'a list \<Rightarrow> 'a list \<Rightarrow> string \<Rightarrow> Gnuplot
     \<Rightarrow> failure + Gnuplot" where
  "plot_vectors shw x y vx vy label g = plot_impl shw label VECTORS False x [y, vx, vy] g"

definition plot3d ::
  "('a \<Rightarrow> string) \<Rightarrow> 'a list \<Rightarrow> 'a list \<Rightarrow> 'a list \<Rightarrow> string \<Rightarrow> LineStyle \<Rightarrow> Gnuplot
     \<Rightarrow> failure + Gnuplot" where
  "plot3d shw x y z label style g = plot_impl shw label style True x [y, z] g"

definition plot_vectors3d ::
  "('a \<Rightarrow> string) \<Rightarrow> 'a list \<Rightarrow> 'a list \<Rightarrow> 'a list \<Rightarrow> 'a list \<Rightarrow> 'a list \<Rightarrow> 'a list
     \<Rightarrow> string \<Rightarrow> Gnuplot \<Rightarrow> failure + Gnuplot" where
  "plot_vectors3d shw x y z vx vy vz label g =
     plot_impl shw label VECTORS True x [y, z, vx, vy, vz] g"

subsection \<open>Histograms\<close>

text \<open>
  \<open>std::min_element\<close> and \<open>std::max_element\<close>, dereferenced. \<open>histogram\<close> calls them on a
  non-empty vector only, so the empty case (the end iterator) has no equation.
\<close>

fun min_element :: "real list \<Rightarrow> real" where
  "min_element (x # xs) = fold (\<lambda>v m. if v < m then v else m) xs x"

fun max_element :: "real list \<Rightarrow> real" where
  "max_element (x # xs) = fold (\<lambda>v m. if m < v then v else m) xs x"

text \<open>
  \<open>int(nbins)\<close> for a \<open>size_t\<close>: the value modulo \<open>2^32\<close>, read as a signed 32-bit integer
  (what C++20 prescribes, and what compilers did before it).
\<close>

definition int_of_size_t :: "nat \<Rightarrow> int" where
  "int_of_size_t n = (let m = int (n mod 2 ^ 32) in if m < 2 ^ 31 then m else m - 2 ^ 32)"

text \<open>
  \<open>static_cast<int>(x)\<close> for a \<open>double\<close>: truncation towards zero, undefined when the
  truncated value is no \<open>int\<close>.
\<close>

definition double_to_int :: "real \<Rightarrow> failure + int" where
  "double_to_int x =
     (let t = (if 0 \<le> x then \<lfloor>x\<rfloor> else \<lceil>x\<rceil>)
      in if - (2 ^ 31) \<le> t \<and> t < 2 ^ 31 then Inr t else Inl Undefined_behaviour)"

text \<open>
  The loop that fills the bins. A zero \<open>binwidth\<close> makes the quotient a NaN or an
  infinity, whose conversion to \<open>int\<close> is undefined. \<open>bins.at(index)\<close> converts the index
  to \<open>size_t\<close>, so a negative index is out of range as well.
\<close>

fun fill_bins :: "real \<Rightarrow> real \<Rightarrow> nat \<Rightarrow> real list \<Rightarrow> nat list \<Rightarrow> failure + nat list" where
  "fill_bins mn binwidth nbins [] bins = Inr bins"
| "fill_bins mn binwidth nbins (val # rest) bins =
     (if binwidth = 0 then Inl Undefined_behaviour
      else case double_to_int ((val - mn) / binwidth) of
             Inl e \<Rightarrow> Inl e
           | Inr index0 \<Rightarrow>
               if index0 \<ge> int_of_size_t nbins \<and> index0 - 1 < - (2 ^ 31)
               then Inl Undefined_behaviour
               else let index = (if index0 \<ge> int_of_size_t nbins then index0 - 1 else index0)
                    in if 0 \<le> index \<and> nat index < length bins
                       then fill_bins mn binwidth nbins rest
                              (bins[nat index := bins ! nat index + 1])
                       else Inl Out_of_range)"

definition histogram ::
  "(real \<Rightarrow> string) \<Rightarrow> real list \<Rightarrow> nat \<Rightarrow> string \<Rightarrow> LineStyle \<Rightarrow> Gnuplot
     \<Rightarrow> failure + Gnuplot" where
  "histogram fmt vals nbins label style g =
     (if \<not> nbins > 0 then Inl Assert_nbins
      else if vals = [] then Inr g
      else if series g \<noteq> [] \<and> is_3dplot g then Inl Assert_dimension
      else let mn = min_element vals;
               mx = max_element vals;
               binwidth = (mx - mn) / real nbins
           in case fill_bins mn binwidth nbins vals (replicate nbins 0) of
                Inl e \<Rightarrow> Inl e
              | Inr bins \<Rightarrow>
                  Inr (g\<lparr>series := series g @
                           [\<lparr>data_string =
                               fold (\<lambda>i ofs. ofs @ fmt (mn + binwidth * (real i + 0.5))
                                                @ [space] @ show_nat (bins ! i) @ [newline])
                                    [0..<nbins] [],
                             line_style = style, title = label, column_range = ''1:2''\<rparr>],
                         is_3dplot := False\<rparr>))"

subsection \<open>Drawing and resetting\<close>

definition reset :: "(real \<Rightarrow> string) \<Rightarrow> Gnuplot \<Rightarrow> Gnuplot" where
  "reset fmt g =
     (set_yrange fmt None None (set_xrange fmt None None (g\<lparr>series := []\<rparr>)))
       \<lparr>is_3dplot := False\<rparr>"

text \<open>The text that \<open>show\<close> assembles in its string stream before sending it.\<close>

definition show_command :: "Gnuplot \<Rightarrow> string" where
  "show_command g =
     (let os = ''set style fill solid 0.5'' @ [newline];
          os = fold (\<lambda>i os. os @ ''$Datablock'' @ show_nat i @ '' << EOD'' @ [newline]
                               @ data_string (series g ! i) @ [newline] @ ''EOD'' @ [newline])
                    [0..<length (series g)] os;
          os = (if is_3dplot g
                then os @ ''splot '' @ xrange g @ '' '' @ yrange g @ '' '' @ zrange g @ '' ''
                else os @ ''plot '' @ xrange g @ '' '' @ yrange g @ '' '')
      in fold (\<lambda>i os. os @ ''$Datablock'' @ show_nat i @ '' using ''
                         @ column_range (series g ! i) @ '' with ''
                         @ style_to_str (line_style (series g ! i)) @ '' title '' @ [quote]
                         @ escape_quotes (title (series g ! i)) @ [quote]
                         @ (if i + 1 < length (series g) then '', '' else []))
              [0..<length (series g)] os)"

text \<open>\<open>show(call_reset)\<close>.\<close>

definition show_plots :: "(real \<Rightarrow> string) \<Rightarrow> bool \<Rightarrow> Gnuplot \<Rightarrow> bool \<times> Gnuplot" where
  "show_plots fmt call_reset g =
     (if series g = [] then (True, g)
      else let (result, g') = sendcommand (show_command g) g
           in if result \<and> call_reset then (result, reset fmt g') else (result, g'))"

subsection \<open>The public interface as a datatype of calls\<close>

datatype 'a add_series =
  Plot_y "'a list" string LineStyle
  | Plot_xy "'a list" "'a list" string LineStyle
  | Plot_xerr "'a list" "'a list" "'a list" string
  | Plot_yerr "'a list" "'a list" "'a list" string
  | Plot_xyerr "'a list" "'a list" "'a list" "'a list" string
  | Plot_vectors "'a list" "'a list" "'a list" "'a list" string
  | Plot3d "'a list" "'a list" "'a list" string LineStyle
  | Plot_vectors3d "'a list" "'a list" "'a list" "'a list" "'a list" "'a list" string
  | Histogram "real list" nat string LineStyle

fun add_call ::
  "('a \<Rightarrow> string) \<Rightarrow> (real \<Rightarrow> string) \<Rightarrow> 'a add_series \<Rightarrow> Gnuplot \<Rightarrow> failure + Gnuplot" where
  "add_call shw fmt (Plot_y y label style) g = plot_y shw y label style g"
| "add_call shw fmt (Plot_xy x y label style) g = plot_xy shw x y label style g"
| "add_call shw fmt (Plot_xerr x y err label) g = plot_xerr shw x y err label g"
| "add_call shw fmt (Plot_yerr x y err label) g = plot_yerr shw x y err label g"
| "add_call shw fmt (Plot_xyerr x y xerr yerr label) g = plot_xyerr shw x y xerr yerr label g"
| "add_call shw fmt (Plot_vectors x y vx vy label) g = plot_vectors shw x y vx vy label g"
| "add_call shw fmt (Plot3d x y z label style) g = plot3d shw x y z label style g"
| "add_call shw fmt (Plot_vectors3d x y z vx vy vz label) g =
     plot_vectors3d shw x y z vx vy vz label g"
| "add_call shw fmt (Histogram vals nbins label style) g = histogram fmt vals nbins label style g"

datatype 'a api_call =
  Add "'a add_series"
  | Sendcommand string
  | Redirect_to_png string string
  | Redirect_to_pdf string string
  | Redirect_to_svg string string
  | Redirect_to_dumb string nat nat TerminalMode
  | Set_xlabel string
  | Set_ylabel string
  | Set_xrange "real option" "real option"
  | Set_yrange "real option" "real option"
  | Set_zrange "real option" "real option"
  | Set_logscale AxisScale
  | Multiplot int int string
  | Show bool
  | Reset

text \<open>One call of a public method; the boolean results are dropped.\<close>

fun call :: "('a \<Rightarrow> string) \<Rightarrow> (real \<Rightarrow> string) \<Rightarrow> 'a api_call \<Rightarrow> Gnuplot \<Rightarrow> failure + Gnuplot" where
  "call shw fmt (Add a) g = add_call shw fmt a g"
| "call shw fmt (Sendcommand str) g = Inr (snd (sendcommand str g))"
| "call shw fmt (Redirect_to_png f sz) g = Inr (snd (redirect_to_png f sz g))"
| "call shw fmt (Redirect_to_pdf f sz) g = Inr (snd (redirect_to_pdf f sz g))"
| "call shw fmt (Redirect_to_svg f sz) g = Inr (snd (redirect_to_svg f sz g))"
| "call shw fmt (Redirect_to_dumb f w h m) g = Inr (snd (redirect_to_dumb f w h m g))"
| "call shw fmt (Set_xlabel l) g = Inr (snd (set_xlabel l g))"
| "call shw fmt (Set_ylabel l) g = Inr (snd (set_ylabel l g))"
| "call shw fmt (Set_xrange mn mx) g = Inr (set_xrange fmt mn mx g)"
| "call shw fmt (Set_yrange mn mx) g = Inr (set_yrange fmt mn mx g)"
| "call shw fmt (Set_zrange mn mx) g = Inr (set_zrange fmt mn mx g)"
| "call shw fmt (Set_logscale sc) g = Inr (snd (set_logscale sc g))"
| "call shw fmt (Multiplot r c t) g = Inr (snd (multiplot r c t g))"
| "call shw fmt (Show call_reset) g = Inr (snd (show_plots fmt call_reset g))"
| "call shw fmt Reset g = Inr (reset fmt g)"

text \<open>A program: calls in sequence, stopping at the first failure.\<close>

fun calls ::
  "('a \<Rightarrow> string) \<Rightarrow> (real \<Rightarrow> string) \<Rightarrow> 'a api_call list \<Rightarrow> Gnuplot \<Rightarrow> failure + Gnuplot" where
  "calls shw fmt [] g = Inr g"
| "calls shw fmt (c # cs) g =
     (case call shw fmt c g of Inl e \<Rightarrow> Inl e | Inr g' \<Rightarrow> calls shw fmt cs g')"

section \<open>Vocabulary of the properties\<close>

text \<open>
  The definitions of this section are not part of the header. They name what the
  properties speak about: the rows and the cells of a data block, the sequences that a
  call zips, the bins of a histogram as the specification describes them, and the
  sessions of the examples.
\<close>

subsection \<open>Reading a quoted argument back\<close>

text \<open>
  How Gnuplot reads the body of a single-quoted argument, from the words of the
  specification: a doubled quote stands for one quote character, and a quote that is not
  doubled ends the argument. The result is the text read and, when a closing quote was
  found, the input that follows it.
\<close>

fun read_quoted :: "string \<Rightarrow> string \<times> string option" where
  "read_quoted [] = ([], None)"
| "read_quoted [c] = (if c = quote then ([], Some []) else ([c], None))"
| "read_quoted (c # d # cs) =
     (if c \<noteq> quote then apfst (Cons c) (read_quoted (d # cs))
      else if d = quote then apfst (Cons quote) (read_quoted cs)
      else ([], Some (d # cs)))"

subsection \<open>Rows and cells of a data block\<close>

text \<open>
  \<open>chunks c\<close> cuts a text at every occurrence of the character \<open>c\<close>. The rows of a
  data block are its chunks at the newline, the cells of a row are its chunks at the
  space.
\<close>

fun chunks :: "char \<Rightarrow> string \<Rightarrow> string \<Rightarrow> string list" where
  "chunks c cur [] = (if cur = [] then [] else [cur])"
| "chunks c cur (x # xs) = (if x = c then cur # chunks c [] xs else chunks c (cur @ [x]) xs)"

definition rows_of :: "string \<Rightarrow> string list" where
  "rows_of text = chunks newline [] text"

definition cells_of :: "string \<Rightarrow> string list" where
  "cells_of row = chunks space [] row"

text \<open>
  The text of row \<open>i\<close> of the table whose columns are the vectors \<open>vs\<close>, the text of its
  first \<open>n\<close> rows, and the column descriptor \<open>index:index+1:...\<close> of \<open>k\<close> columns.
\<close>

definition row_text :: "('a \<Rightarrow> string) \<Rightarrow> 'a list list \<Rightarrow> nat \<Rightarrow> string" where
  "row_text shw vs i = concat (map (\<lambda>v. shw (v ! i) @ [space]) vs)"

definition table_text :: "('a \<Rightarrow> string) \<Rightarrow> 'a list list \<Rightarrow> nat \<Rightarrow> string" where
  "table_text shw vs n = concat (map (\<lambda>i. row_text shw vs i @ [newline]) [0..<n])"

fun descriptor_from :: "int \<Rightarrow> nat \<Rightarrow> string" where
  "descriptor_from index 0 = []"
| "descriptor_from index (Suc k) =
     (if index > 1 then '':'' else []) @ show_int index @ descriptor_from (index + 1) k"

subsection \<open>What a call that adds a series is made of\<close>

text \<open>
  The sequences zipped by a call (the primary sequence first), its label, its style and
  its dimension, read off the calls of \<open>_plot\<close> in the header; a histogram zips none.
\<close>

fun sequences :: "'a add_series \<Rightarrow> 'a list list" where
  "sequences (Plot_y y label style) = [y]"
| "sequences (Plot_xy x y label style) = [x, y]"
| "sequences (Plot_xerr x y err label) = [x, y, err]"
| "sequences (Plot_yerr x y err label) = [x, y, err]"
| "sequences (Plot_xyerr x y xerr yerr label) = [x, y, xerr, yerr]"
| "sequences (Plot_vectors x y vx vy label) = [x, y, vx, vy]"
| "sequences (Plot3d x y z label style) = [x, y, z]"
| "sequences (Plot_vectors3d x y z vx vy vz label) = [x, y, z, vx, vy, vz]"
| "sequences (Histogram vals nbins label style) = []"

fun is_histogram :: "'a add_series \<Rightarrow> bool" where
  "is_histogram (Histogram vals nbins label style) = True"
| "is_histogram a = False"

fun is_3d_call :: "'a add_series \<Rightarrow> bool" where
  "is_3d_call (Plot3d x y z label style) = True"
| "is_3d_call (Plot_vectors3d x y z vx vy vz label) = True"
| "is_3d_call a = False"

fun label_of :: "'a add_series \<Rightarrow> string" where
  "label_of (Plot_y y label style) = label"
| "label_of (Plot_xy x y label style) = label"
| "label_of (Plot_xerr x y err label) = label"
| "label_of (Plot_yerr x y err label) = label"
| "label_of (Plot_xyerr x y xerr yerr label) = label"
| "label_of (Plot_vectors x y vx vy label) = label"
| "label_of (Plot3d x y z label style) = label"
| "label_of (Plot_vectors3d x y z vx vy vz label) = label"
| "label_of (Histogram vals nbins label style) = label"

fun style_of :: "'a add_series \<Rightarrow> LineStyle" where
  "style_of (Plot_y y label style) = style"
| "style_of (Plot_xy x y label style) = style"
| "style_of (Plot_xerr x y err label) = X_ERROR_BARS"
| "style_of (Plot_yerr x y err label) = Y_ERROR_BARS"
| "style_of (Plot_xyerr x y xerr yerr label) = XY_ERROR_BARS"
| "style_of (Plot_vectors x y vx vy label) = VECTORS"
| "style_of (Plot3d x y z label style) = style"
| "style_of (Plot_vectors3d x y z vx vy vz label) = VECTORS"
| "style_of (Histogram vals nbins label style) = style"

text \<open>
  Whether the primary sequence of a call is empty, whether a call is a histogram with no
  bins, and whether a call of the public interface may reach \<open>reset\<close>.
\<close>

fun primary_empty :: "'a add_series \<Rightarrow> bool" where
  "primary_empty (Histogram vals nbins label style) = (vals = [])"
| "primary_empty a = (hd (sequences a) = [])"

fun zero_bins :: "'a add_series \<Rightarrow> bool" where
  "zero_bins (Histogram vals nbins label style) = (nbins = 0)"
| "zero_bins a = False"

fun resets :: "'a api_call \<Rightarrow> bool" where
  "resets Reset = True"
| "resets (Show call_reset) = call_reset"
| "resets c = False"

text \<open>
  The series that a call describes: its sequences zipped row by row, over the length of
  the primary sequence.
\<close>

definition series_of :: "('a \<Rightarrow> string) \<Rightarrow> 'a add_series \<Rightarrow> GnuplotSeries" where
  "series_of shw a =
     \<lparr>data_string = table_text shw (sequences a) (length (hd (sequences a))),
      line_style = style_of a, title = label_of a,
      column_range = descriptor_from 1 (length (sequences a))\<rparr>"

subsection \<open>The bins of a histogram, as the specification words them\<close>






subsection \<open>Sessions and formatters of the examples\<close>

text \<open>
  A number formatter for the examples: the integer part in decimal, which is what the
  stream prints for an integral \<open>double\<close> below \<open>10^6\<close>.
\<close>

definition show_integral :: "real \<Rightarrow> string" where
  "show_integral x = show_int \<lfloor>x\<rfloor>"

text \<open>Two environments: one where Gnuplot starts, one where it does not.\<close>

definition spawn_ok :: "string \<Rightarrow> bool" where
  "spawn_ok command = True"

definition spawn_fails :: "string \<Rightarrow> bool" where
  "spawn_fails command = False"

definition fresh_session :: Gnuplot where
  "fresh_session = Gnuplot_ctor spawn_ok show_integral ''gnuplot'' True"

text \<open>
  A session with bounds on the X and the Z axis and one pending series, and a session
  with one pending 3D series, both obtained through the public interface.
\<close>

definition pending_session :: "(string \<Rightarrow> bool) \<Rightarrow> Gnuplot" where
  "pending_session popen =
     (let g = Gnuplot_ctor popen show_integral ''gnuplot'' True;
          g = set_zrange show_integral (Some 2) None (set_xrange show_integral (Some 2) (Some 7) g)
      in case plot_y show_integral [5] [] LINES g of Inl e \<Rightarrow> g | Inr g' \<Rightarrow> g')"

definition session_3d :: Gnuplot where
  "session_3d =
     (case plot3d show_integral [1, 2] [2, 7] [4, 5] ''a'' LINES fresh_session of
        Inl e \<Rightarrow> fresh_session | Inr g \<Rightarrow> g)"

section \<open>Lemmas\<close>

subsection \<open>Decimal output\<close>

lemma digit_char_in: "d < 10 \<Longrightarrow> digit_char d \<in> set ''0123456789''"
proof -
  assume "d < 10"
  then have "d \<in> {0, 1, 2, 3, 4, 5, 6, 7, 8, 9}" by auto
  then show ?thesis by (auto simp: digit_char_def)
qed

lemma show_nat_digits: "set (show_nat n) \<subseteq> set ''0123456789''"
proof (induction n rule: show_nat.induct)
  case (1 n)
  show ?case
  proof (cases "n < 10")
    case True
    then show ?thesis using digit_char_in [of n] by (subst show_nat.simps) simp
  next
    case False
    have "n mod 10 < 10" by simp
    then have "digit_char (n mod 10) \<in> set ''0123456789''" by (rule digit_char_in)
    with False 1 show ?thesis by (subst show_nat.simps) simp
  qed
qed

lemma show_nat_chars: "c \<in> set (show_nat n) \<Longrightarrow> c \<in> set ''0123456789''"
  using show_nat_digits by blast

lemma show_int_chars: "c \<in> set (show_int i) \<Longrightarrow> c \<in> set ''-0123456789''"
proof (cases "i < 0")
  case True
  assume "c \<in> set (show_int i)"
  with True have "c = CHR ''-'' \<or> c \<in> set (show_nat (nat (- i)))"
    by (simp add: show_int_def)
  then show ?thesis using show_nat_chars [of c "nat (- i)"] by fastforce
next
  case False
  assume "c \<in> set (show_int i)"
  with False have "c \<in> set (show_nat (nat i))"
    by (simp add: show_int_def)
  then show ?thesis using show_nat_chars [of c "nat i"] by fastforce
qed

lemma show_integral_chars: "c \<in> set (show_integral x) \<Longrightarrow> c \<in> set ''-0123456789''"
  unfolding show_integral_def by (rule show_int_chars)

lemma show_integral_no_star: "CHR ''*'' \<notin> set (show_integral x)"
  using show_integral_chars [of "CHR ''*''" x] by fastforce


lemma show_integral_clean:
  "\<forall>x. space \<notin> set (show_integral x) \<and> newline \<notin> set (show_integral x)
       \<and> NUL \<notin> set (show_integral x)"
proof
  fix x
  show "space \<notin> set (show_integral x) \<and> newline \<notin> set (show_integral x)
       \<and> NUL \<notin> set (show_integral x)"
    using show_integral_chars [of space x] show_integral_chars [of newline x]
      show_integral_chars [of NUL x]
    by fastforce
qed

lemma show_integral_examples:
  "show_integral 0 = ''0''" "show_integral 1 = ''1''" "show_integral 2 = ''2''"
  "show_integral 3 = ''3''" "show_integral 4 = ''4''" "show_integral 5 = ''5''"
  "show_integral 7 = ''7''"
  by (simp_all add: show_integral_def show_int_def show_nat.simps digit_char_def)

lemma descriptor_examples:
  "descriptor_from 1 1 = ''1''" "descriptor_from 1 2 = ''1:2''"
  "descriptor_from 1 3 = ''1:2:3''" "descriptor_from 1 4 = ''1:2:3:4''"
  "descriptor_from 1 6 = ''1:2:3:4:5:6''"
  by (simp_all add: numeral_eq_Suc show_int_def show_nat.simps digit_char_def)

subsection \<open>The example sessions\<close>

lemmas eval_defs = plot_y_def plot_xy_def plot3d_def plot_impl_def show_integral_examples
  upt_conv_Cons show_int_def show_nat.simps digit_char_def

lemma ctor_eq:
  "Gnuplot_ctor popen show_integral ''gnuplot'' True =
     \<lparr>connection = (if popen ''gnuplot --persist''
                     then Some (''set encoding utf8'' @ [newline, newline]
                                @ ''set minussign'' @ [newline])
                     else None),
      series = [], files_to_delete = [],
      xrange = ''[]'', yrange = ''[]'', zrange = ''[]'', is_3dplot = False\<rparr>"
  by (simp add: Gnuplot_ctor_def set_xrange_def set_yrange_def
      set_zrange_def format_range_def sendcommand_def ok_def c_str_def)

lemma fresh_session_eq:
  "fresh_session =
     \<lparr>connection = Some (''set encoding utf8'' @ [newline, newline]
                         @ ''set minussign'' @ [newline]),
      series = [], files_to_delete = [],
      xrange = ''[]'', yrange = ''[]'', zrange = ''[]'', is_3dplot = False\<rparr>"
  by (simp add: fresh_session_def ctor_eq spawn_ok_def)

lemma pending_session_eq:
  "pending_session popen =
     \<lparr>connection = (if popen ''gnuplot --persist''
                     then Some (''set encoding utf8'' @ [newline, newline]
                                @ ''set minussign'' @ [newline])
                     else None),
      series = [\<lparr>data_string = ''5 '' @ [newline], line_style = LINES, title = [],
                 column_range = ''1''\<rparr>],
      files_to_delete = [],
      xrange = ''[2:7]'', yrange = ''[]'', zrange = ''[2:*]'', is_3dplot = False\<rparr>"
  by (simp add: pending_session_def ctor_eq set_xrange_def set_zrange_def format_range_def
      eval_defs)

lemma session_3d_eq:
  "session_3d =
     fresh_session\<lparr>series := [\<lparr>data_string = ''1 2 4 '' @ [newline] @ ''2 7 5 '' @ [newline],
                                line_style = LINES, title = ''a'', column_range = ''1:2:3''\<rparr>],
                    is_3dplot := True\<rparr>"
  by (simp add: session_3d_def fresh_session_eq eval_defs)

subsection \<open>Quote escaping\<close>

lemma fold_escape_acc:
  "fold (\<lambda>c result. if c \<noteq> quote then result @ [c] else result @ [quote, quote]) s acc
     = acc @ concat (map (\<lambda>c. if c = quote then [quote, quote] else [c]) s)"
  by (induction s arbitrary: acc) auto

lemma escape_quotes_concat:
  "escape_quotes s = concat (map (\<lambda>c. if c = quote then [quote, quote] else [c]) s)"
  by (simp add: escape_quotes_def fold_escape_acc)

lemma escape_quotes_Nil [simp]: "escape_quotes [] = []"
  by (simp add: escape_quotes_concat)

lemma escape_quotes_Cons:
  "escape_quotes (c # s) =
     (if c = quote then quote # quote # escape_quotes s else c # escape_quotes s)"
  by (simp add: escape_quotes_concat)

lemma read_quoted_Cons_other:
  "c \<noteq> quote \<Longrightarrow> read_quoted (c # t) = apfst (Cons c) (read_quoted t)"
  by (cases t) auto

lemma read_quoted_escape_end:
  "r = [] \<or> hd r \<noteq> quote \<Longrightarrow> read_quoted (escape_quotes s @ quote # r) = (s, Some r)"
proof (induction s)
  case Nil
  then show ?case by (cases r) auto
next
  case (Cons c s)
  then show ?case by (simp add: escape_quotes_Cons read_quoted_Cons_other)
qed

lemma read_quoted_escape: "read_quoted (escape_quotes s) = (s, None)"
  by (induction s) (simp_all add: escape_quotes_Cons read_quoted_Cons_other)

subsection \<open>Cutting a text into rows and cells\<close>

lemma chunks_append:
  "c \<notin> set w \<Longrightarrow> chunks c cur (w @ c # rest) = (cur @ w) # chunks c [] rest"
  by (induction w arbitrary: cur) auto

lemma chunks_concat:
  "\<forall>r\<in>set rs. c \<notin> set r \<Longrightarrow> chunks c [] (concat (map (\<lambda>r. r @ [c]) rs)) = rs"
proof (induction rs)
  case Nil
  then show ?case by simp
next
  case (Cons r rs)
  then show ?case using chunks_append [of c r "[]" "concat (map (\<lambda>r. r @ [c]) rs)"] by simp
qed

lemma cells_of_single: "space \<notin> set w \<Longrightarrow> cells_of (w @ [space]) = [w]"
  using chunks_append [of space w "[]" "[]"] by (simp add: cells_of_def)

lemma cells_of_row_text:
  assumes "\<forall>x. space \<notin> set (shw x)"
  shows "cells_of (row_text shw vs i) = map (\<lambda>v. shw (v ! i)) vs"
proof -
  have "row_text shw vs i = concat (map (\<lambda>r. r @ [space]) (map (\<lambda>v. shw (v ! i)) vs))"
    by (simp add: row_text_def comp_def)
  moreover have "\<forall>r\<in>set (map (\<lambda>v. shw (v ! i)) vs). space \<notin> set r"
    using assms by simp
  ultimately show ?thesis unfolding cells_of_def by (simp only: chunks_concat)
qed

lemma row_text_no_char:
  "\<forall>x. c \<notin> set (shw x) \<Longrightarrow> c \<noteq> space \<Longrightarrow> c \<notin> set (row_text shw vs i)"
  by (auto simp: row_text_def)

lemma rows_of_table_text:
  assumes "\<forall>x. newline \<notin> set (shw x)"
  shows "rows_of (table_text shw vs n) = map (row_text shw vs) [0..<n]"
proof -
  have "table_text shw vs n = concat (map (\<lambda>r. r @ [newline]) (map (row_text shw vs) [0..<n]))"
    by (simp add: table_text_def comp_def)
  moreover have "\<forall>r\<in>set (map (row_text shw vs) [0..<n]). newline \<notin> set r"
    using assms row_text_no_char [of newline shw] by simp
  ultimately show ?thesis unfolding rows_of_def by (simp only: chunks_concat)
qed

lemma table_text_no_NUL:
  "\<forall>x. NUL \<notin> set (shw x) \<Longrightarrow> NUL \<notin> set (table_text shw vs n)"
  using row_text_no_char [of NUL shw] by (auto simp: table_text_def)

lemma table_text_single:
  "table_text shw [y] (length y) = concat (map (\<lambda>v. shw v @ [space, newline]) y)"
proof -
  have "map (\<lambda>i. shw (y ! i) @ [space, newline]) [0..<length y]
      = map (\<lambda>v. shw v @ [space, newline]) (map ((!) y) [0..<length y])"
    by (simp add: comp_def)
  then show ?thesis by (simp add: table_text_def row_text_def map_nth)
qed

lemma c_str_append: "NUL \<notin> set a \<Longrightarrow> c_str (a @ b) = a @ c_str b"
  unfolding c_str_def by (induction a) auto


subsection \<open>The loops of \<open>_plot\<close>\<close>

lemma print_ith_ok:
  "\<forall>v\<in>set vs. i < length v \<Longrightarrow>
   print_ith_elements shw (os, fmts) index i vs
     = Inr (os @ row_text shw vs i,
            if i = 0 then fmts @ descriptor_from index (length vs) else fmts)"
proof (induction vs arbitrary: os fmts index)
  case Nil
  then show ?case by (simp add: row_text_def)
next
  case (Cons v vs)
  then show ?case by (simp add: row_text_def)
qed

lemma print_ith_short:
  "\<exists>v\<in>set vs. \<not> i < length v \<Longrightarrow>
   print_ith_elements shw (os, fmts) index i vs = Inl Undefined_behaviour"
proof (induction vs arbitrary: os fmts index)
  case Nil
  then show ?case by simp
next
  case (Cons v vs)
  then show ?case by (cases "i < length v") auto
qed

lemma plot_loop_ok:
  "\<forall>i\<in>set idx. i \<noteq> 0 \<and> (\<forall>v\<in>set vs. i < length v) \<Longrightarrow>
   plot_loop shw vs idx (ofs, fmtstring)
     = Inr (ofs @ concat (map (\<lambda>i. row_text shw vs i @ [newline]) idx), fmtstring)"
proof (induction idx arbitrary: ofs)
  case Nil
  then show ?case by simp
next
  case (Cons i idx)
  then have "print_ith_elements shw (ofs, fmtstring) 1 i vs
      = Inr (ofs @ row_text shw vs i, fmtstring)"
    using print_ith_ok [of vs i shw ofs fmtstring 1] by simp
  with Cons show ?case by simp
qed

lemma plot_loop_short:
  "\<exists>i\<in>set idx. \<exists>v\<in>set vs. \<not> i < length v \<Longrightarrow>
   plot_loop shw vs idx (ofs, fmtstring) = Inl Undefined_behaviour"
proof (induction idx arbitrary: ofs fmtstring)
  case Nil
  then show ?case by simp
next
  case (Cons i idx)
  show ?case
  proof (cases "\<exists>v\<in>set vs. \<not> i < length v")
    case True
    then show ?thesis using print_ith_short [of vs i shw ofs fmtstring 1] by simp
  next
    case False
    then have p: "print_ith_elements shw (ofs, fmtstring) 1 i vs
      = Inr (ofs @ row_text shw vs i,
             if i = 0 then fmtstring @ descriptor_from 1 (length vs) else fmtstring)"
      using print_ith_ok [of vs i shw ofs fmtstring 1] by blast
    from False Cons.prems have "\<exists>i\<in>set idx. \<exists>v\<in>set vs. \<not> i < length v" by auto
    then show ?thesis using Cons.IH p by simp
  qed
qed

lemma plot_loop_all:
  assumes "0 < n" and "\<forall>v\<in>set vs. n \<le> length v"
  shows "plot_loop shw vs [0..<n] ([], [])
           = Inr (table_text shw vs n, descriptor_from 1 (length vs))"
proof -
  have u: "[0..<n] = 0 # [1..<n]" using assms(1) by (simp add: upt_conv_Cons)
  have "\<forall>v\<in>set vs. 0 < length v" using assms by fastforce
  then have p: "print_ith_elements shw ([], []) 1 0 vs
      = Inr (row_text shw vs 0, descriptor_from 1 (length vs))"
    using print_ith_ok [of vs 0 shw "[]" "[]" 1] by simp
  have "\<forall>i\<in>set [1..<n]. i \<noteq> 0 \<and> (\<forall>v\<in>set vs. i < length v)"
    using assms(2) by fastforce
  then have "plot_loop shw vs [1..<n] (row_text shw vs 0 @ [newline], descriptor_from 1 (length vs))
      = Inr ((row_text shw vs 0 @ [newline])
               @ concat (map (\<lambda>i. row_text shw vs i @ [newline]) [1..<n]),
             descriptor_from 1 (length vs))"
    by (rule plot_loop_ok)
  with p show ?thesis by (simp add: u table_text_def)
qed

lemma plot_impl_ok:
  assumes "v \<noteq> []" and "series g = [] \<or> is_3dplot g = is3d"
    and "\<forall>c\<in>set args. length v \<le> length c"
  shows "plot_impl shw label style is3d v args g
           = Inr (g\<lparr>series := series g @
                      [\<lparr>data_string = table_text shw (v # args) (length v),
                        line_style = style, title = label,
                        column_range = descriptor_from 1 (Suc (length args))\<rparr>],
                    is_3dplot := is3d\<rparr>)"
proof -
  have "plot_loop shw (v # args) [0..<length v] ([], [])
          = Inr (table_text shw (v # args) (length v), descriptor_from 1 (length (v # args)))"
    using assms(1,3) by (intro plot_loop_all) auto
  with assms(1,2) show ?thesis by (auto simp: plot_impl_def)
qed

lemma plot_impl_short:
  assumes "v \<noteq> []" and "series g = [] \<or> is_3dplot g = is3d"
    and "\<exists>c\<in>set args. length c < length v"
  shows "plot_impl shw label style is3d v args g = Inl Undefined_behaviour"
proof -
  from assms(3) obtain c where c: "c \<in> set args" "length c < length v" by blast
  then have "length c \<in> set [0..<length v]" "\<not> length c < length c" by auto
  with c(1) have "\<exists>i\<in>set [0..<length v]. \<exists>w\<in>set (v # args). \<not> i < length w"
    by (metis list.set_intros(2))
  then have "plot_loop shw (v # args) [0..<length v] ([], []) = Inl Undefined_behaviour"
    by (rule plot_loop_short)
  with assms(1,2) show ?thesis by (auto simp: plot_impl_def)
qed

lemma add_call_plot_impl:
  "\<not> is_histogram a \<Longrightarrow>
   add_call shw fmt a g
     = plot_impl shw (label_of a) (style_of a) (is_3d_call a)
         (hd (sequences a)) (tl (sequences a)) g"
  by (cases a)
     (simp_all add: plot_y_def plot_xy_def plot_xerr_def plot_yerr_def plot_xyerr_def
        plot_vectors_def plot3d_def plot_vectors3d_def)

lemma sequences_length:
  "\<not> is_histogram a \<Longrightarrow> Suc (length (tl (sequences a))) = length (sequences a)"
  by (cases a) simp_all

lemma sequences_hd_tl:
  "\<not> is_histogram a \<Longrightarrow> hd (sequences a) # tl (sequences a) = sequences a"
  by (cases a) simp_all

lemma primary_empty_hd: "\<not> is_histogram a \<Longrightarrow> primary_empty a = (hd (sequences a) = [])"
  by (cases a) simp_all

lemma add_call_ok:
  assumes "\<not> is_histogram a" and "hd (sequences a) \<noteq> []"
    and "series g = [] \<or> is_3dplot g = is_3d_call a"
    and "\<forall>c\<in>set (tl (sequences a)). length (hd (sequences a)) \<le> length c"
  shows "add_call shw fmt a g
           = Inr (g\<lparr>series := series g @ [series_of shw a], is_3dplot := is_3d_call a\<rparr>)"
proof -
  have l: "Suc (length (tl (sequences a))) = length (sequences a)"
    using assms(1) by (rule sequences_length)
  have h: "hd (sequences a) # tl (sequences a) = sequences a"
    using assms(1) by (rule sequences_hd_tl)
  show ?thesis
    unfolding add_call_plot_impl [OF assms(1)] series_of_def plot_impl_ok [OF assms(2,3,4)] l h
    by (rule refl)
qed

lemma add_call_short:
  assumes "\<not> is_histogram a" and "hd (sequences a) \<noteq> []"
    and "series g = [] \<or> is_3dplot g = is_3d_call a"
    and "\<exists>c\<in>set (tl (sequences a)). length c < length (hd (sequences a))"
  shows "add_call shw fmt a g = Inl Undefined_behaviour"
  using plot_impl_short [OF assms(2,3,4), of shw "label_of a" "style_of a"]
    add_call_plot_impl [OF assms(1), of shw fmt g]
  by simp

lemma series_of_table:
  assumes "\<not> is_histogram a" and "\<forall>v\<in>set (sequences a). length v = n"
  shows "data_string (series_of shw a) = table_text shw (sequences a) n"
proof -
  have "hd (sequences a) \<in> set (sequences a)"
    using sequences_hd_tl [OF assms(1)] by (metis list.set_intros(1))
  with assms(2) show ?thesis by (simp add: series_of_def)
qed

subsection \<open>The text sent by \<open>show\<close>\<close>

lemma show_command_single:
  "show_command (g\<lparr>series := [ser], is_3dplot := d\<rparr>)
     = (''set style fill solid 0.5'' @ [newline] @ ''$Datablock0 << EOD'' @ [newline]
        @ data_string ser @ [newline] @ ''EOD'' @ [newline])
       @ ((if d then ''splot '' @ xrange g @ '' '' @ yrange g @ '' '' @ zrange g @ '' ''
           else ''plot '' @ xrange g @ '' '' @ yrange g @ '' '')
          @ ''$Datablock0 using '' @ column_range ser @ '' with ''
          @ style_to_str (line_style ser) @ '' title '' @ [quote]
          @ escape_quotes (title ser) @ [quote])"
  by (simp add: show_command_def show_nat.simps digit_char_def)

lemma show_single:
  assumes "connection g = Some out" and "NUL \<notin> set (data_string ser)"
  shows "fst (show_plots fmt call_reset (g\<lparr>series := [ser], is_3dplot := d\<rparr>))
    \<and> connection (snd (show_plots fmt call_reset (g\<lparr>series := [ser], is_3dplot := d\<rparr>)))
      = Some (out @ ''set style fill solid 0.5'' @ [newline] @ ''$Datablock0 << EOD'' @ [newline]
              @ data_string ser @ [newline] @ ''EOD'' @ [newline]
              @ c_str ((if d then ''splot '' @ xrange g @ '' '' @ yrange g @ '' '' @ zrange g @ '' ''
                        else ''plot '' @ xrange g @ '' '' @ yrange g @ '' '')
                       @ ''$Datablock0 using '' @ column_range ser @ '' with ''
                       @ style_to_str (line_style ser) @ '' title '' @ [quote]
                       @ escape_quotes (title ser) @ [quote])
              @ [newline])"
proof -
  have n: "NUL \<notin> set (''set style fill solid 0.5'' @ [newline] @ ''$Datablock0 << EOD'' @ [newline]
        @ data_string ser @ [newline] @ ''EOD'' @ [newline])"
    using assms(2) by simp
  show ?thesis
    unfolding show_command_single show_plots_def sendcommand_def c_str_append [OF n]
    using assms(1)
    by (simp add: ok_def reset_def set_xrange_def set_yrange_def)
qed

subsection \<open>The 2D/3D flag\<close>

lemma plot_impl_flag:
  "plot_impl shw label style is3d v args g = Inr g' \<Longrightarrow> v \<noteq> [] \<Longrightarrow>
   series g' \<noteq> [] \<and> is_3dplot g' = is3d \<and> (series g \<noteq> [] \<longrightarrow> is_3dplot g = is3d)"
  by (auto simp: plot_impl_def split: if_splits sum.splits)

lemma histogram_flag:
  "histogram fmt vals nbins label style g = Inr g' \<Longrightarrow> vals \<noteq> [] \<Longrightarrow>
   series g' \<noteq> [] \<and> is_3dplot g' = False \<and> (series g \<noteq> [] \<longrightarrow> is_3dplot g = False)"
  by (auto simp: histogram_def Let_def split: if_splits sum.splits)

lemma add_call_flag:
  assumes "add_call shw fmt a g = Inr g'" and "\<not> primary_empty a"
  shows "series g' \<noteq> [] \<and> is_3dplot g' = is_3d_call a
         \<and> (series g \<noteq> [] \<longrightarrow> is_3dplot g = is_3d_call a)"
proof (cases "is_histogram a")
  case True
  then obtain vals nbins label style where a: "a = Histogram vals nbins label style"
    by (cases a) simp_all
  with assms show ?thesis using histogram_flag [of fmt vals nbins label style g g'] by simp
next
  case False
  with assms show ?thesis
    using plot_impl_flag [of shw "label_of a" "style_of a" "is_3d_call a" "hd (sequences a)"
        "tl (sequences a)" g g']
    by (simp add: add_call_plot_impl primary_empty_hd)
qed

lemma add_call_empty:
  assumes "add_call shw fmt a g = Inr g'" and "primary_empty a"
  shows "g' = g"
proof (cases "is_histogram a")
  case True
  then obtain vals nbins label style where a: "a = Histogram vals nbins label style"
    by (cases a) simp_all
  with assms show ?thesis by (simp add: histogram_def split: if_splits)
next
  case False
  with assms show ?thesis
    by (simp add: add_call_plot_impl primary_empty_hd plot_impl_def)
qed

lemma add_call_mismatch:
  assumes "series g \<noteq> []" and "\<not> primary_empty b" and "is_3d_call b \<noteq> is_3dplot g"
  shows "add_call shw fmt b g = (if zero_bins b then Inl Assert_nbins else Inl Assert_dimension)"
proof (cases "is_histogram b")
  case True
  then obtain vals nbins label style where b: "b = Histogram vals nbins label style"
    by (cases b) simp_all
  with assms show ?thesis by (simp add: histogram_def)
next
  case False
  then have "\<not> zero_bins b" by (cases b) simp_all
  with False assms show ?thesis
    by (auto simp: add_call_plot_impl primary_empty_hd plot_impl_def)
qed

lemma add_call_no_mode_failure:
  assumes "series g = []"
  shows "add_call shw fmt a g \<noteq> Inl Assert_dimension"
proof (cases "is_histogram a")
  case True
  then obtain vals nbins label style where a: "a = Histogram vals nbins label style"
    by (cases a) simp_all
  have "fill_bins mn bw nbins vs bins \<noteq> Inl Assert_dimension" for mn bw vs bins
    by (induction vs arbitrary: bins)
       (auto simp: double_to_int_def Let_def split: sum.splits if_splits)
  with a assms show ?thesis
    by (auto simp: histogram_def Let_def split: sum.splits)
next
  case False
  have "print_ith_elements shw acc index i vs \<noteq> Inl Assert_dimension" for acc index i vs
  proof (cases "\<forall>v\<in>set vs. i < length v")
    case True
    then show ?thesis using print_ith_ok [of vs i shw "fst acc" "snd acc" index] by simp
  next
    case False
    then show ?thesis using print_ith_short [of vs i shw "fst acc" "snd acc" index] by simp
  qed
  then have "plot_loop shw vs idx acc \<noteq> Inl Assert_dimension" for vs idx acc
    by (induction idx arbitrary: acc) (auto split: sum.splits prod.splits)
  with False assms show ?thesis
    by (auto simp: add_call_plot_impl plot_impl_def split: sum.splits)
qed

lemma sendcommand_mode [simp]:
  "series (snd (sendcommand str g)) = series g"
  "is_3dplot (snd (sendcommand str g)) = is_3dplot g"
  by (simp_all add: sendcommand_def)

lemma call_keeps_mode:
  assumes "call shw fmt c g = Inr g'" and "\<not> resets c" and "series g \<noteq> []"
  shows "series g' \<noteq> [] \<and> is_3dplot g' = is_3dplot g"
proof (cases c)
  case (Add a)
  show ?thesis
  proof (cases "primary_empty a")
    case True
    with Add assms show ?thesis using add_call_empty [of shw fmt a g g'] by simp
  next
    case False
    with Add assms show ?thesis using add_call_flag [of shw fmt a g g'] by simp
  qed
next
  case (Set_logscale sc)
  with assms show ?thesis by (cases sc) auto
next
  case (Show call_reset)
  with assms have f: "call_reset = False" by simp
  obtain r g1 where s: "sendcommand (show_command g) g = (r, g1)"
    by (cases "sendcommand (show_command g) g")
  then have "series g1 = series g \<and> is_3dplot g1 = is_3dplot g"
    using sendcommand_mode [of "show_command g" g] by simp
  with Show f s assms show ?thesis by (auto simp: show_plots_def)
qed (use assms in \<open>auto simp: redirect_to_png_def redirect_to_pdf_def redirect_to_svg_def
      redirect_to_dumb_def set_xlabel_def set_ylabel_def set_xrange_def set_yrange_def
      set_zrange_def multiplot_def\<close>)

lemma calls_keep_mode:
  "calls shw fmt cs g = Inr g' \<Longrightarrow> \<forall>c\<in>set cs. \<not> resets c \<Longrightarrow> series g \<noteq> [] \<Longrightarrow>
   series g' \<noteq> [] \<and> is_3dplot g' = is_3dplot g"
proof (induction cs arbitrary: g)
  case Nil
  then show ?case by simp
next
  case (Cons c cs)
  from Cons.prems(1) obtain g1 where c: "call shw fmt c g = Inr g1"
    and r: "calls shw fmt cs g1 = Inr g'"
    by (auto split: sum.splits)
  have k: "series g1 \<noteq> [] \<and> is_3dplot g1 = is_3dplot g"
    using call_keeps_mode [OF c] Cons.prems(2,3) by simp
  then show ?case using Cons.IH [OF r] Cons.prems(2) by simp
qed

subsection \<open>Filling the bins\<close>









subsection \<open>The list of files to delete\<close>

lemma sendcommand_files [simp]: "files_to_delete (snd (sendcommand str g)) = files_to_delete g"
  by (simp add: sendcommand_def)

lemma plot_impl_files:
  "plot_impl shw label style is3d v args g = Inr g' \<Longrightarrow> files_to_delete g' = files_to_delete g"
  by (auto simp: plot_impl_def split: if_splits sum.splits)

lemma histogram_files:
  "histogram fmt vals nbins label style g = Inr g' \<Longrightarrow> files_to_delete g' = files_to_delete g"
  by (auto simp: histogram_def Let_def split: if_splits sum.splits)

lemma add_call_files:
  "add_call shw fmt a g = Inr g' \<Longrightarrow> files_to_delete g' = files_to_delete g"
  by (cases a)
     (auto simp: plot_y_def plot_xy_def plot_xerr_def plot_yerr_def plot_xyerr_def
        plot_vectors_def plot3d_def plot_vectors3d_def
        dest: plot_impl_files histogram_files)

lemma reset_files [simp]: "files_to_delete (reset fmt g) = files_to_delete g"
  by (simp add: reset_def set_xrange_def set_yrange_def)

lemma show_plots_files [simp]:
  "files_to_delete (snd (show_plots fmt call_reset g)) = files_to_delete g"
proof (cases "series g = []")
  case True
  then show ?thesis by (simp add: show_plots_def)
next
  case False
  obtain r g1 where s: "sendcommand (show_command g) g = (r, g1)"
    by (cases "sendcommand (show_command g) g")
  have "files_to_delete g1 = files_to_delete g"
    using sendcommand_files [of "show_command g" g] s by simp
  with False s show ?thesis by (simp add: show_plots_def)
qed

lemma call_files: "call shw fmt c g = Inr g' \<Longrightarrow> files_to_delete g' = files_to_delete g"
proof (cases c)
  case (Add a)
  assume "call shw fmt c g = Inr g'"
  with Add show ?thesis by (simp add: add_call_files)
next
  case (Set_logscale sc)
  assume "call shw fmt c g = Inr g'"
  with Set_logscale show ?thesis by (cases sc) auto
qed (auto simp: redirect_to_png_def redirect_to_pdf_def redirect_to_svg_def redirect_to_dumb_def
      set_xlabel_def set_ylabel_def set_xrange_def set_yrange_def set_zrange_def multiplot_def)

lemma calls_files: "calls shw fmt cs g = Inr g' \<Longrightarrow> files_to_delete g' = files_to_delete g"
proof (induction cs arbitrary: g)
  case Nil
  then show ?case by simp
next
  case (Cons c cs)
  then show ?case by (auto split: sum.splits dest: call_files)
qed

lemma ctor_files: "files_to_delete (Gnuplot_ctor popen fmt name persist) = []"
  by (simp add: Gnuplot_ctor_def Let_def set_xrange_def set_yrange_def set_zrange_def)

section \<open>The properties\<close>




text \<open>
  C2 (as amended). For a non-empty \<open>y\<close> and a session whose dimension check passes,
  \<open>plot(y)\<close> appends one series whose column descriptor is \<open>1\<close> and whose data block has
  one row per element, holding that element alone: no index column is written. (Gnuplot
  itself numbers the points of a block read with \<open>using 1\<close>.)
\<close>

theorem plot_y_single_column:
  assumes "y \<noteq> []" and "series g = [] \<or> \<not> is_3dplot g"
  shows "plot_y shw y label style g
           = Inr (g\<lparr>series := series g @
                      [\<lparr>data_string = concat (map (\<lambda>v. shw v @ [space, newline]) y),
                        line_style = style, title = label, column_range = ''1''\<rparr>],
                    is_3dplot := False\<rparr>)
    \<and> ((\<forall>x. space \<notin> set (shw x) \<and> newline \<notin> set (shw x)) \<longrightarrow>
          map cells_of (rows_of (concat (map (\<lambda>v. shw v @ [space, newline]) y)))
            = map (\<lambda>v. [shw v]) y)"
proof -
  have "series g = [] \<or> is_3dplot g = False" using assms(2) by simp
  then have 1: "plot_y shw y label style g
           = Inr (g\<lparr>series := series g @
                      [\<lparr>data_string = concat (map (\<lambda>v. shw v @ [space, newline]) y),
                        line_style = style, title = label, column_range = ''1''\<rparr>],
                    is_3dplot := False\<rparr>)"
    using plot_impl_ok [of y g False "[]" shw label style] assms(1)
    by (simp add: plot_y_def table_text_single show_int_def show_nat.simps digit_char_def)
  have 2: "map cells_of (rows_of (concat (map (\<lambda>v. shw v @ [space, newline]) y)))
            = map (\<lambda>v. [shw v]) y"
    if f: "\<forall>x. space \<notin> set (shw x) \<and> newline \<notin> set (shw x)"
  proof -
    have "concat (map (\<lambda>v. shw v @ [space, newline]) y)
        = concat (map (\<lambda>r. r @ [newline]) (map (\<lambda>v. shw v @ [space]) y))"
      by (simp add: comp_def)
    moreover have "\<forall>r\<in>set (map (\<lambda>v. shw v @ [space]) y). newline \<notin> set r"
      using f by simp
    ultimately have "rows_of (concat (map (\<lambda>v. shw v @ [space, newline]) y))
        = map (\<lambda>v. shw v @ [space]) y"
      unfolding rows_of_def by (simp only: chunks_concat)
    then show ?thesis using f by (simp add: cells_of_single)
  qed
  from 1 2 show ?thesis by blast
qed

theorem plot_y_single_column_witness:
  "plot_y show_integral [5, 7] ''a'' POINTS fresh_session
     = Inr (fresh_session\<lparr>series := [\<lparr>data_string = ''5 '' @ [newline] @ ''7 '' @ [newline],
                                       line_style = POINTS, title = ''a'', column_range = ''1''\<rparr>],
                          is_3dplot := False\<rparr>)
   \<and> map cells_of (rows_of (''5 '' @ [newline] @ ''7 '' @ [newline])) = [[''5''], [''7'']]"
proof -
  have h: "[5, 7 :: real] \<noteq> []" "series fresh_session = [] \<or> \<not> is_3dplot fresh_session"
    by (simp_all add: fresh_session_eq)
  have f: "\<forall>x. space \<notin> set (show_integral x) \<and> newline \<notin> set (show_integral x)"
    using show_integral_clean by blast
  show ?thesis
    using plot_y_single_column [OF h, of show_integral "''a''" POINTS] f
    by (simp add: fresh_session_eq show_integral_examples)
qed

text \<open>
  The claim C2 as it is worded has the descriptor \<open>1:2\<close> and two columns per row. For
  \<open>plot({5})\<close> the descriptor is \<open>1\<close> and the only row has the only cell \<open>5\<close>; and with
  a 3D series pending the call fails the assertion and appends nothing.
\<close>

theorem plot_y_counterexample:
  "plot_y show_integral [5] [] LINES fresh_session
     = Inr (fresh_session\<lparr>series := [\<lparr>data_string = ''5 '' @ [newline], line_style = LINES,
                                       title = [], column_range = ''1''\<rparr>],
                          is_3dplot := False\<rparr>)
   \<and> ''1'' \<noteq> ''1:2''
   \<and> cells_of ''5 '' = [''5'']
   \<and> plot_y show_integral [5] [] LINES session_3d = Inl Assert_dimension"
  by (simp add: fresh_session_eq session_3d_eq eval_defs cells_of_def)

text \<open>
  C3 (as amended). No variant of the table compares the lengths of its sequences. Take
  any of \<open>plot(x, y)\<close>, \<open>plot_xerr\<close>, \<open>plot_yerr\<close>, \<open>plot_xyerr\<close>, \<open>plot_vectors\<close>,
  \<open>plot3d\<close> and \<open>plot_vectors3d\<close> with a non-empty primary sequence, in a session whose
  dimension check passes. When every companion is at least as long as the primary
  sequence, the call appends a series and reports nothing: the rows are the first
  elements of each sequence, as many as the primary sequence has. When a companion is
  shorter, the call reads it past its end, which is undefined behaviour.
\<close>

theorem companion_lengths_unchecked:
  assumes "\<not> is_histogram a" and "hd (sequences a) \<noteq> []"
    and "series g = [] \<or> is_3dplot g = is_3d_call a"
  shows "((\<forall>c\<in>set (tl (sequences a)). length (hd (sequences a)) \<le> length c) \<longrightarrow>
            add_call shw fmt a g
              = Inr (g\<lparr>series := series g @ [series_of shw a], is_3dplot := is_3d_call a\<rparr>))
         \<and> ((\<exists>c\<in>set (tl (sequences a)). length c < length (hd (sequences a))) \<longrightarrow>
            add_call shw fmt a g = Inl Undefined_behaviour)"
  using add_call_ok [OF assms] add_call_short [OF assms] by blast

theorem companion_lengths_unchecked_witness:
  "add_call show_integral show_integral (Plot_xerr [1, 2] [4, 5, 7] [3, 3] ''e'') fresh_session
     = Inr (fresh_session\<lparr>series := [\<lparr>data_string = ''1 4 3 '' @ [newline] @ ''2 5 3 '' @ [newline],
                                       line_style = X_ERROR_BARS, title = ''e'',
                                       column_range = ''1:2:3''\<rparr>],
                          is_3dplot := False\<rparr>)
   \<and> add_call show_integral show_integral (Plot_xy [1, 2] [4] [] LINES) fresh_session
       = Inl Undefined_behaviour"
proof -
  have a: "\<not> is_histogram (Plot_xerr [1, 2] [4, 5, 7] [3, 3 :: real] ''e'')"
    "hd (sequences (Plot_xerr [1, 2] [4, 5, 7] [3, 3 :: real] ''e'')) \<noteq> []"
    "series fresh_session = []
      \<or> is_3dplot fresh_session = is_3d_call (Plot_xerr [1, 2] [4, 5, 7] [3, 3 :: real] ''e'')"
    by (simp_all add: fresh_session_eq)
  have b: "\<not> is_histogram (Plot_xy [1, 2] [4 :: real] [] LINES)"
    "hd (sequences (Plot_xy [1, 2] [4 :: real] [] LINES)) \<noteq> []"
    "series fresh_session = []
      \<or> is_3dplot fresh_session = is_3d_call (Plot_xy [1, 2] [4 :: real] [] LINES)"
    by (simp_all add: fresh_session_eq)
  have s: "series_of show_integral (Plot_xerr [1, 2] [4, 5, 7] [3, 3] ''e'')
      = \<lparr>data_string = ''1 4 3 '' @ [newline] @ ''2 5 3 '' @ [newline],
         line_style = X_ERROR_BARS, title = ''e'', column_range = ''1:2:3''\<rparr>"
    by (simp add: series_of_def table_text_def row_text_def upt_conv_Cons
        show_integral_examples show_int_def show_nat.simps digit_char_def)
  show ?thesis
    using companion_lengths_unchecked [OF a, of show_integral show_integral]
      companion_lengths_unchecked [OF b, of show_integral show_integral]
    by (simp add: s fresh_session_eq)
qed

text \<open>
  The claim C3 as it is worded has every call with a companion of another length
  rejected. \<open>plot({1}, {2, 7})\<close> is accepted, and a series with the row \<open>1 2\<close> is pending
  afterwards.
\<close>

theorem companion_lengths_counterexample:
  "plot_xy show_integral [1] [2, 7] [] LINES fresh_session
     = Inr (fresh_session\<lparr>series := [\<lparr>data_string = ''1 2 '' @ [newline], line_style = LINES,
                                       title = [], column_range = ''1:2''\<rparr>],
                          is_3dplot := False\<rparr>)"
  by (simp add: fresh_session_eq eval_defs)

text \<open>
  C4. With no pending series the assertion on the dimension cannot fail. A call with a
  non-empty primary sequence that succeeds then leaves a pending series and sets the 3D
  flag to its own dimension. After it and any further calls of the public interface that
  succeed and do not reach \<open>reset\<close> (neither \<open>reset\<close> nor a \<open>show\<close> with \<open>call_reset\<close>), a
  call with a non-empty primary sequence of the other dimension fails an assertion: the
  one on the dimension, or, for a histogram with no bins, the one on the number of bins,
  which comes first. The same holds in any session with a pending series whose flag
  differs from the dimension of the call.
\<close>

theorem mode_is_fixed_by_first_series:
  "(series g = [] \<longrightarrow> add_call shw fmt a g \<noteq> Inl Assert_dimension)
   \<and> (series g = [] \<and> \<not> primary_empty a \<and> add_call shw fmt a g = Inr g1 \<longrightarrow>
        series g1 \<noteq> [] \<and> is_3dplot g1 = is_3d_call a)
   \<and> (series g = [] \<and> \<not> primary_empty a \<and> add_call shw fmt a g = Inr g1
        \<and> (\<forall>c\<in>set cs. \<not> resets c) \<and> calls shw fmt cs g1 = Inr g2
        \<and> \<not> primary_empty b \<and> is_3d_call b \<noteq> is_3d_call a \<longrightarrow>
        add_call shw fmt b g2
          = (if zero_bins b then Inl Assert_nbins else Inl Assert_dimension))
   \<and> (series g' \<noteq> [] \<and> \<not> primary_empty b \<and> is_3d_call b \<noteq> is_3dplot g' \<longrightarrow>
        add_call shw fmt b g'
          = (if zero_bins b then Inl Assert_nbins else Inl Assert_dimension))"
proof -
  have 1: "series g = [] \<longrightarrow> add_call shw fmt a g \<noteq> Inl Assert_dimension"
    using add_call_no_mode_failure [of g shw fmt a] by blast
  have 2: "series g = [] \<and> \<not> primary_empty a \<and> add_call shw fmt a g = Inr g1 \<longrightarrow>
        series g1 \<noteq> [] \<and> is_3dplot g1 = is_3d_call a"
    using add_call_flag [of shw fmt a g g1] by blast
  have 3: "add_call shw fmt b g2
          = (if zero_bins b then Inl Assert_nbins else Inl Assert_dimension)"
    if h: "series g = []" "\<not> primary_empty a" "add_call shw fmt a g = Inr g1"
      "\<forall>c\<in>set cs. \<not> resets c" "calls shw fmt cs g1 = Inr g2"
      "\<not> primary_empty b" "is_3d_call b \<noteq> is_3d_call a"
  proof -
    have f: "series g1 \<noteq> []" "is_3dplot g1 = is_3d_call a"
      using add_call_flag [OF h(3) h(2)] by simp_all
    have "series g2 \<noteq> [] \<and> is_3dplot g2 = is_3dplot g1"
      using calls_keep_mode [OF h(5) h(4) f(1)] .
    with f h(6,7) show ?thesis by (intro add_call_mismatch) simp_all
  qed
  have 4: "series g' \<noteq> [] \<and> \<not> primary_empty b \<and> is_3d_call b \<noteq> is_3dplot g' \<longrightarrow>
        add_call shw fmt b g'
          = (if zero_bins b then Inl Assert_nbins else Inl Assert_dimension)"
    using add_call_mismatch [of g' b shw fmt] by blast
  from 1 2 3 4 show ?thesis by blast
qed

theorem mode_is_fixed_by_first_series_witness:
  "add_call show_integral show_integral (Histogram [1, 2, 3, 4, 5] 2 [] BOXES) fresh_session
     \<noteq> Inl Assert_dimension
   \<and> add_call show_integral show_integral (Plot3d [1, 2] [2, 7] [4, 5] ''a'' LINES) fresh_session
       = Inr session_3d
   \<and> series session_3d \<noteq> [] \<and> is_3dplot session_3d
   \<and> calls show_integral show_integral [Set_xrange (Some 2) None, Show False] session_3d
       = Inr (snd (show_plots show_integral False
                     (set_xrange show_integral (Some 2) None session_3d)))
   \<and> add_call show_integral show_integral (Plot_y [5] [] LINES)
        (snd (show_plots show_integral False (set_xrange show_integral (Some 2) None session_3d)))
       = Inl Assert_dimension
   \<and> add_call show_integral show_integral (Histogram [1, 2, 3, 4, 5] 2 [] BOXES) session_3d
       = Inl Assert_dimension"
proof -
  have e: "series fresh_session = []" by (simp add: fresh_session_eq)
  have a: "add_call show_integral show_integral (Plot3d [1, 2] [2, 7] [4, 5] ''a'' LINES)
        fresh_session = Inr session_3d"
    by (simp add: session_3d_eq fresh_session_eq eval_defs)
  have cs: "calls show_integral show_integral [Set_xrange (Some 2) None, Show False] session_3d
       = Inr (snd (show_plots show_integral False
                     (set_xrange show_integral (Some 2) None session_3d)))"
    by simp
  have nr: "\<forall>c\<in>set [Set_xrange (Some 2) None, Show False :: real api_call]. \<not> resets c"
    by simp
  have s3: "series session_3d \<noteq> []" "is_3dplot session_3d"
    by (simp_all add: session_3d_eq)
  note t = mode_is_fixed_by_first_series [of fresh_session show_integral show_integral _ _
      "[Set_xrange (Some 2) None, Show False]"
      "snd (show_plots show_integral False (set_xrange show_integral (Some 2) None session_3d))"
      _ session_3d]
  have 1: "add_call show_integral show_integral (Histogram [1, 2, 3, 4, 5] 2 [] BOXES)
      fresh_session \<noteq> Inl Assert_dimension"
    using t [of "Histogram [1, 2, 3, 4, 5] 2 [] BOXES" session_3d "Plot_y [5] [] LINES"] e
    by blast
  have 2: "add_call show_integral show_integral (Plot_y [5] [] LINES)
        (snd (show_plots show_integral False (set_xrange show_integral (Some 2) None session_3d)))
       = Inl Assert_dimension"
    using t [of "Plot3d [1, 2] [2, 7] [4, 5] ''a'' LINES" session_3d "Plot_y [5] [] LINES"]
      e a cs nr
    by simp
  have 3: "add_call show_integral show_integral (Histogram [1, 2, 3, 4, 5] 2 [] BOXES) session_3d
       = Inl Assert_dimension"
    using t [of "Plot3d [1, 2] [2, 7] [4, 5] ''a'' LINES" session_3d
        "Histogram [1, 2, 3, 4, 5] 2 [] BOXES"] s3
    by simp
  from 1 2 3 a cs s3 show ?thesis by blast
qed

text \<open>
  C5. Each range setter stores the descriptor that \<open>format_range\<close> computes. With both
  bounds automatic the descriptor is \<open>[]\<close>; with one bound automatic it is \<open>[low:high]\<close>
  with \<open>*\<close> in the place of the automatic bound; with both bounds fixed it is
  \<open>[low:high]\<close>. When the number formatter never prints a star, the descriptor holds
  exactly one star in the second case and none in the third.
\<close>

theorem range_descriptor:
  "xrange (set_xrange fmt lo hi g) = format_range fmt lo hi
   \<and> yrange (set_yrange fmt lo hi g) = format_range fmt lo hi
   \<and> zrange (set_zrange fmt lo hi g) = format_range fmt lo hi
   \<and> format_range fmt None None = ''[]''
   \<and> format_range fmt None (Some b) = ''[*:'' @ fmt b @ '']''
   \<and> format_range fmt (Some a) None = ''['' @ fmt a @ '':*]''
   \<and> format_range fmt (Some a) (Some b) = ''['' @ fmt a @ '':'' @ fmt b @ '']''
   \<and> ((\<forall>x. CHR ''*'' \<notin> set (fmt x)) \<longrightarrow>
        count_list (format_range fmt None (Some b)) (CHR ''*'') = 1
        \<and> count_list (format_range fmt (Some a) None) (CHR ''*'') = 1
        \<and> count_list (format_range fmt (Some a) (Some b)) (CHR ''*'') = 0)"
  by (simp add: set_xrange_def set_yrange_def set_zrange_def format_range_def)

theorem range_descriptor_witness:
  "xrange (set_xrange show_integral None None fresh_session) = ''[]''
   \<and> xrange (set_xrange show_integral (Some 2) None fresh_session) = ''[2:*]''
   \<and> yrange (set_yrange show_integral None (Some 7) fresh_session) = ''[*:7]''
   \<and> zrange (set_zrange show_integral (Some 2) (Some 7) fresh_session) = ''[2:7]''
   \<and> count_list (format_range show_integral (Some 2) None) (CHR ''*'') = 1
   \<and> count_list (format_range show_integral None (Some 7)) (CHR ''*'') = 1
   \<and> count_list (format_range show_integral (Some 2) (Some 7)) (CHR ''*'') = 0"
proof -
  have h: "\<forall>x. CHR ''*'' \<notin> set (show_integral x)"
    by (simp add: show_integral_no_star)
  note r = range_descriptor [of show_integral _ _ fresh_session 7 2]
  have "xrange (set_xrange show_integral None None fresh_session) = ''[]''"
    using r [of None None] by simp
  moreover have "xrange (set_xrange show_integral (Some 2) None fresh_session) = ''[2:*]''"
    using r [of "Some 2" None] by (simp add: show_integral_examples)
  moreover have "yrange (set_yrange show_integral None (Some 7) fresh_session) = ''[*:7]''"
    using r [of None "Some 7"] by (simp add: show_integral_examples)
  moreover have "zrange (set_zrange show_integral (Some 2) (Some 7) fresh_session) = ''[2:7]''"
    using r [of "Some 2" "Some 7"] by (simp add: show_integral_examples)
  moreover have "count_list (format_range show_integral (Some 2) None) (CHR ''*'') = 1
    \<and> count_list (format_range show_integral None (Some 7)) (CHR ''*'') = 1
    \<and> count_list (format_range show_integral (Some 2) (Some 7)) (CHR ''*'') = 0"
    using r [of None None] h by blast
  ultimately show ?thesis by blast
qed

text \<open>
  C6. \<open>escape_quotes\<close> replaces every single quote by two and copies every other
  character, in order. Hence a text without quotes is returned as it is, the characters
  other than quotes are the same before and after, and the number of quotes doubles.
  Reading the escaped text back by Gnuplot's quoting rule gives the original text: no
  quote of the escaped text ends the argument, and with a closing quote appended the
  argument ends exactly there.
\<close>

theorem escape_quotes_doubles_quotes:
  "escape_quotes s = concat (map (\<lambda>c. if c = quote then [quote, quote] else [c]) s)
   \<and> (quote \<notin> set s \<longrightarrow> escape_quotes s = s)
   \<and> filter (\<lambda>c. c \<noteq> quote) (escape_quotes s) = filter (\<lambda>c. c \<noteq> quote) s
   \<and> count_list (escape_quotes s) quote = 2 * count_list s quote
   \<and> read_quoted (escape_quotes s) = (s, None)
   \<and> (r = [] \<or> hd r \<noteq> quote \<longrightarrow> read_quoted (escape_quotes s @ quote # r) = (s, Some r))"
proof -
  have a: "quote \<notin> set s \<longrightarrow> escape_quotes s = s"
    by (induction s) (auto simp: escape_quotes_Cons)
  have b: "filter (\<lambda>c. c \<noteq> quote) (escape_quotes s) = filter (\<lambda>c. c \<noteq> quote) s"
    by (induction s) (auto simp: escape_quotes_Cons)
  have c: "count_list (escape_quotes s) quote = 2 * count_list s quote"
    by (induction s) (auto simp: escape_quotes_Cons)
  show ?thesis
    using a b c escape_quotes_concat read_quoted_escape read_quoted_escape_end by blast
qed

theorem escape_quotes_doubles_quotes_witness:
  "escape_quotes ''it's a test'' = ''it'' @ [quote, quote] @ ''s a test''
   \<and> escape_quotes ''plain'' = ''plain''
   \<and> read_quoted (escape_quotes ''it's a test'') = (''it's a test'', None)
   \<and> read_quoted (escape_quotes ''it's a test'' @ quote # '' rest'')
       = (''it's a test'', Some '' rest'')"
  using escape_quotes_doubles_quotes [of "''it's a test''" "'' rest''"]
        escape_quotes_doubles_quotes [of "''plain''" "[]"]
  by simp

text \<open>
  C7 (as amended). \<open>reset\<close> empties the list of pending series, sets the X and the Y
  range to \<open>[]\<close>, clears the 3D flag and leaves the Z range as it was. A \<open>show\<close> with \<open>call_reset\<close> that
  had pending series and returned \<open>true\<close> has done the same. A \<open>show\<close> that returns
  \<open>false\<close> leaves the session as it was; with pending series, \<open>show\<close> returns \<open>true\<close>
  exactly when the connection is open.
\<close>

theorem reset_clears_xy_keeps_z:
  "series (reset fmt g) = [] \<and> xrange (reset fmt g) = ''[]'' \<and> yrange (reset fmt g) = ''[]''
   \<and> \<not> is_3dplot (reset fmt g) \<and> zrange (reset fmt g) = zrange g
   \<and> (series g \<noteq> [] \<and> fst (show_plots fmt True g) \<longrightarrow>
        series (snd (show_plots fmt True g)) = []
        \<and> xrange (snd (show_plots fmt True g)) = ''[]''
        \<and> yrange (snd (show_plots fmt True g)) = ''[]''
        \<and> \<not> is_3dplot (snd (show_plots fmt True g))
        \<and> zrange (snd (show_plots fmt True g)) = zrange g)
   \<and> (\<not> fst (show_plots fmt call_reset g) \<longrightarrow> snd (show_plots fmt call_reset g) = g)
   \<and> (series g \<noteq> [] \<longrightarrow> fst (show_plots fmt call_reset g) = ok g)"
  by (auto simp: reset_def set_xrange_def set_yrange_def format_range_def show_plots_def
      sendcommand_def split: prod.splits if_splits)

theorem reset_clears_xy_keeps_z_witness:
  "series (pending_session spawn_ok) \<noteq> []
   \<and> xrange (pending_session spawn_ok) = ''[2:7]''
   \<and> fst (show_plots show_integral True (pending_session spawn_ok))
   \<and> series (snd (show_plots show_integral True (pending_session spawn_ok))) = []
   \<and> xrange (snd (show_plots show_integral True (pending_session spawn_ok))) = ''[]''
   \<and> yrange (snd (show_plots show_integral True (pending_session spawn_ok))) = ''[]''
   \<and> \<not> is_3dplot (snd (show_plots show_integral True (pending_session spawn_ok)))
   \<and> zrange (snd (show_plots show_integral True (pending_session spawn_ok))) = ''[2:*]''
   \<and> \<not> fst (show_plots show_integral True (pending_session spawn_fails))
   \<and> snd (show_plots show_integral True (pending_session spawn_fails))
       = pending_session spawn_fails"
proof -
  have a: "series (pending_session spawn_ok) \<noteq> []" "ok (pending_session spawn_ok)"
    "xrange (pending_session spawn_ok) = ''[2:7]''"
    "zrange (pending_session spawn_ok) = ''[2:*]''"
    by (simp_all add: pending_session_eq ok_def spawn_ok_def)
  have b: "series (pending_session spawn_fails) \<noteq> []" "\<not> ok (pending_session spawn_fails)"
    by (simp_all add: pending_session_eq ok_def spawn_fails_def)
  show ?thesis
    using a b reset_clears_xy_keeps_z [of show_integral "pending_session spawn_ok" True]
      reset_clears_xy_keeps_z [of show_integral "pending_session spawn_fails" True]
    by simp
qed

text \<open>
  The claim C7 as it is worded speaks of every successful \<open>show\<close> with \<open>call_reset\<close>.
  With no pending series \<open>show\<close> returns \<open>true\<close> before it reaches the call of \<open>reset\<close>: a
  range set on the X axis is then still there.
\<close>

theorem reset_counterexample:
  "series (set_xrange show_integral (Some 0) (Some 1) fresh_session) = []
   \<and> show_plots show_integral True (set_xrange show_integral (Some 0) (Some 1) fresh_session)
       = (True, set_xrange show_integral (Some 0) (Some 1) fresh_session)
   \<and> xrange (set_xrange show_integral (Some 0) (Some 1) fresh_session) = ''[0:1]''
   \<and> ''[0:1]'' \<noteq> ''[]''"
  by (simp add: show_plots_def set_xrange_def format_range_def fresh_session_eq
      show_integral_examples)


text \<open>
  C8. Take a call other than \<open>histogram\<close> whose sequences all have the same length
  \<open>n > 0\<close>, a session with an open connection and no pending series, and an element
  formatter that prints neither a space, nor a newline, nor a NUL. The call followed by
  \<open>show\<close> succeeds, and the text sent is the fill style, one data block \<open>$Datablock0\<close>
  and one \<open>plot\<close> or \<open>splot\<close> command. The data of the block are \<open>n\<close> rows, row \<open>i\<close>
  holding element \<open>i\<close> of each sequence in order, so as many cells as there are
  sequences; an empty line separates them from the \<open>EOD\<close> that ends the block.
\<close>

theorem one_datablock_per_series:
  assumes "\<not> is_histogram a" and "0 < n" and "\<forall>v\<in>set (sequences a). length v = n"
    and "series g = []" and "connection g = Some out"
    and "\<forall>x. space \<notin> set (shw x) \<and> newline \<notin> set (shw x) \<and> NUL \<notin> set (shw x)"
  shows "add_call shw fmt a g = Inr (g\<lparr>series := [series_of shw a], is_3dplot := is_3d_call a\<rparr>)
    \<and> calls shw fmt [Add a, Show call_reset] g
        = Inr (snd (show_plots fmt call_reset
                      (g\<lparr>series := [series_of shw a], is_3dplot := is_3d_call a\<rparr>)))
    \<and> fst (show_plots fmt call_reset (g\<lparr>series := [series_of shw a], is_3dplot := is_3d_call a\<rparr>))
    \<and> connection (snd (show_plots fmt call_reset
                          (g\<lparr>series := [series_of shw a], is_3dplot := is_3d_call a\<rparr>)))
        = Some (out @ ''set style fill solid 0.5'' @ [newline]
                @ ''$Datablock0 << EOD'' @ [newline]
                @ data_string (series_of shw a) @ [newline] @ ''EOD'' @ [newline]
                @ c_str ((if is_3d_call a
                          then ''splot '' @ xrange g @ '' '' @ yrange g @ '' '' @ zrange g @ '' ''
                          else ''plot '' @ xrange g @ '' '' @ yrange g @ '' '')
                         @ ''$Datablock0 using '' @ column_range (series_of shw a) @ '' with ''
                         @ style_to_str (line_style (series_of shw a)) @ '' title '' @ [quote]
                         @ escape_quotes (title (series_of shw a)) @ [quote])
                @ [newline])
    \<and> map cells_of (rows_of (data_string (series_of shw a)))
        = map (\<lambda>i. map (\<lambda>v. shw (v ! i)) (sequences a)) [0..<n]
    \<and> length (rows_of (data_string (series_of shw a))) = n
    \<and> (\<forall>r\<in>set (rows_of (data_string (series_of shw a))).
          length (cells_of r) = length (sequences a))"
proof -
  have hd_in: "hd (sequences a) \<in> set (sequences a)"
    using sequences_hd_tl [OF assms(1)] by (metis list.set_intros(1))
  have tl_in: "\<forall>c\<in>set (tl (sequences a)). c \<in> set (sequences a)"
    using sequences_hd_tl [OF assms(1)] by (metis list.set_intros(2))
  have p: "hd (sequences a) \<noteq> []" using hd_in assms(2,3) by fastforce
  have c: "\<forall>c\<in>set (tl (sequences a)). length (hd (sequences a)) \<le> length c"
    using hd_in tl_in assms(3) by simp
  have m: "series g = [] \<or> is_3dplot g = is_3d_call a" using assms(4) by simp
  have add: "add_call shw fmt a g
      = Inr (g\<lparr>series := [series_of shw a], is_3dplot := is_3d_call a\<rparr>)"
    using add_call_ok [OF assms(1) p m c, of shw fmt] assms(4) by simp
  have d: "data_string (series_of shw a) = table_text shw (sequences a) n"
    using assms(1,3) by (rule series_of_table)
  have nul: "NUL \<notin> set (data_string (series_of shw a))"
    unfolding d using assms(6) by (intro table_text_no_NUL) simp
  have rows: "rows_of (data_string (series_of shw a)) = map (row_text shw (sequences a)) [0..<n]"
    unfolding d using assms(6) by (intro rows_of_table_text) simp
  have cells: "cells_of (row_text shw (sequences a) i) = map (\<lambda>v. shw (v ! i)) (sequences a)"
    for i using assms(6) by (intro cells_of_row_text) simp
  have t: "map cells_of (rows_of (data_string (series_of shw a)))
        = map (\<lambda>i. map (\<lambda>v. shw (v ! i)) (sequences a)) [0..<n]"
    by (simp add: rows cells comp_def)
  have l: "length (rows_of (data_string (series_of shw a))) = n"
    by (simp add: rows)
  have k: "\<forall>r\<in>set (rows_of (data_string (series_of shw a))).
          length (cells_of r) = length (sequences a)"
    by (auto simp: rows cells)
  have run: "calls shw fmt [Add a, Show call_reset] g
        = Inr (snd (show_plots fmt call_reset
                      (g\<lparr>series := [series_of shw a], is_3dplot := is_3d_call a\<rparr>)))"
    by (simp add: add)
  show ?thesis
    using add run show_single [OF assms(5) nul, of fmt call_reset "is_3d_call a"] t l k
    by blast
qed

theorem one_datablock_per_series_witness:
  "calls show_integral show_integral [Add (Plot_xy [1, 2] [4, 5] ''it's'' LINES), Show True]
     fresh_session
     = Inr (snd (show_plots show_integral True
              (fresh_session\<lparr>series := [series_of show_integral (Plot_xy [1, 2] [4, 5] ''it's'' LINES)],
                              is_3dplot := False\<rparr>)))
   \<and> data_string (series_of show_integral (Plot_xy [1, 2] [4, 5] ''it's'' LINES))
       = ''1 4 '' @ [newline] @ ''2 5 '' @ [newline]
   \<and> connection (snd (show_plots show_integral True
              (fresh_session\<lparr>series := [series_of show_integral (Plot_xy [1, 2] [4, 5] ''it's'' LINES)],
                              is_3dplot := False\<rparr>)))
       = Some (''set encoding utf8'' @ [newline, newline] @ ''set minussign'' @ [newline]
               @ ''set style fill solid 0.5'' @ [newline]
               @ ''$Datablock0 << EOD'' @ [newline]
               @ ''1 4 '' @ [newline] @ ''2 5 '' @ [newline] @ [newline] @ ''EOD'' @ [newline]
               @ ''plot [] [] $Datablock0 using 1:2 with lines title '' @ [quote]
               @ ''it'' @ [quote, quote] @ ''s'' @ [quote] @ [newline])
   \<and> map cells_of (rows_of (''1 4 '' @ [newline] @ ''2 5 '' @ [newline]))
       = [[''1'', ''4''], [''2'', ''5'']]"
proof -
  have h: "\<not> is_histogram (Plot_xy [1, 2] [4, 5 :: real] ''it's'' LINES)" "0 < (2 :: nat)"
    "\<forall>v\<in>set (sequences (Plot_xy [1, 2] [4, 5 :: real] ''it's'' LINES)). length v = 2"
    "series fresh_session = []"
    "connection fresh_session
       = Some (''set encoding utf8'' @ [newline, newline] @ ''set minussign'' @ [newline])"
    by (simp_all add: fresh_session_eq)
  have s: "series_of show_integral (Plot_xy [1, 2] [4, 5] ''it's'' LINES)
      = \<lparr>data_string = ''1 4 '' @ [newline] @ ''2 5 '' @ [newline],
         line_style = LINES, title = ''it's'', column_range = ''1:2''\<rparr>"
    by (simp add: series_of_def table_text_def row_text_def upt_conv_Cons
        show_integral_examples show_int_def show_nat.simps digit_char_def)
  have c: "c_str (''plot [] [] $Datablock0 using 1:2 with lines title '' @ [quote]
               @ ''it'' @ [quote, quote] @ ''s'' @ [quote])
      = ''plot [] [] $Datablock0 using 1:2 with lines title '' @ [quote]
               @ ''it'' @ [quote, quote] @ ''s'' @ [quote]"
    by (simp add: c_str_def)
  have t: "map (\<lambda>i. map (\<lambda>v. show_integral (v ! i)) [[1, 2], [4, 5]]) [0..<2]
      = [[''1'', ''4''], [''2'', ''5'']]"
    by (simp add: upt_conv_Cons show_integral_examples)
  have x: "xrange fresh_session = ''[]''" "yrange fresh_session = ''[]''"
    by (simp_all add: fresh_session_eq)
  have e: "escape_quotes ''it's'' = ''it'' @ [quote, quote] @ ''s''"
    by (simp add: escape_quotes_def)
  note th = one_datablock_per_series [OF h show_integral_clean, of show_integral True]
  show ?thesis
    using th c t unfolding s by (simp add: x e)
qed

text \<open>
  C9. With no pending series, \<open>show\<close> returns \<open>true\<close> and leaves the whole session as it
  was; the text written to the pipe is part of the session, so nothing is sent.
\<close>

theorem show_empty_is_noop: "series g = [] \<Longrightarrow> show_plots fmt call_reset g = (True, g)"
  by (simp add: show_plots_def)

theorem show_empty_is_noop_witness:
  "series fresh_session = []
   \<and> show_plots show_integral True fresh_session = (True, fresh_session)
   \<and> show_plots show_integral False fresh_session = (True, fresh_session)"
proof -
  have h: "series fresh_session = []" by (simp add: fresh_session_eq)
  show ?thesis
    using h show_empty_is_noop [OF h, of show_integral True]
      show_empty_is_noop [OF h, of show_integral False] by simp
qed

text \<open>
  C10. The list of files to delete is empty after construction, no public method
  changes it, and so it is empty after every program; the destructor then removes no
  file.
\<close>

theorem files_to_delete_always_empty:
  "files_to_delete (Gnuplot_ctor popen fmt name persist) = []
   \<and> (call shw fmt c g = Inr g' \<longrightarrow> files_to_delete g' = files_to_delete g)
   \<and> (calls shw fmt cs (Gnuplot_ctor popen fmt name persist) = Inr g'' \<longrightarrow>
        files_to_delete g'' = [] \<and> snd (Gnuplot_dtor g'') = [])"
  using ctor_files [of popen fmt name persist] call_files [of shw fmt c g g']
    calls_files [of shw fmt cs "Gnuplot_ctor popen fmt name persist" g'']
  by (simp add: Gnuplot_dtor_def)

theorem files_to_delete_always_empty_witness:
  "files_to_delete (Gnuplot_ctor spawn_ok show_integral ''gnuplot'' True) = []
   \<and> call show_integral show_integral Reset (pending_session spawn_ok)
       = Inr (reset show_integral (pending_session spawn_ok))
   \<and> files_to_delete (reset show_integral (pending_session spawn_ok))
       = files_to_delete (pending_session spawn_ok)
   \<and> calls show_integral show_integral
        [Set_xrange (Some 2) (Some 7), Set_zrange (Some 2) None, Add (Plot_y [5] [] LINES)]
        (Gnuplot_ctor spawn_ok show_integral ''gnuplot'' True) = Inr (pending_session spawn_ok)
   \<and> files_to_delete (pending_session spawn_ok) = []
   \<and> snd (Gnuplot_dtor (pending_session spawn_ok)) = []"
proof -
  have a: "call show_integral show_integral Reset (pending_session spawn_ok)
       = Inr (reset show_integral (pending_session spawn_ok))"
    by simp
  have b: "calls show_integral show_integral
        [Set_xrange (Some 2) (Some 7), Set_zrange (Some 2) None, Add (Plot_y [5] [] LINES)]
        (Gnuplot_ctor spawn_ok show_integral ''gnuplot'' True) = Inr (pending_session spawn_ok)"
    by (simp add: pending_session_eq ctor_eq set_xrange_def set_zrange_def format_range_def
        eval_defs spawn_ok_def)
  show ?thesis
    using a b
      files_to_delete_always_empty [of spawn_ok show_integral "''gnuplot''" True
        show_integral Reset "pending_session spawn_ok"
        "reset show_integral (pending_session spawn_ok)"
        "[Set_xrange (Some 2) (Some 7), Set_zrange (Some 2) None, Add (Plot_y [5] [] LINES)]"
        "pending_session spawn_ok"]
    by simp
qed

end
